theory Spec2Isabelle
  imports Main "HOL-Library.Word" "HOL-Library.Multiset"
begin

unbundle bit_operations_syntax

section \<open>The MIPS TEE call protocol (drivers/tee/mipstee/mipstee\_call.c)\<close>

text \<open>
  A shallow embedding of the four entry points of the driver's call layer,
  \<open>mipstee_open_session\<close>, \<open>mipstee_close_session\<close>, \<open>mipstee_invoke_func\<close> and
  \<open>mipstee_cancel_req\<close>, and of the static helpers they use.

  C \<open>int\<close> values (status codes, idr ids) are HOL integers: the code only passes them on
  and compares them with zero, apart from the two conversions to \<open>u32\<close>, which are
  written \<open>word_of_int\<close>. \<open>u32\<close> and \<open>u64\<close> are machine words.

  The functions of the kernel that the file calls (the shared-memory allocator, the
  TIPC channel, the parameter codec, \<open>kzalloc\<close>) are not part of the file. Their outcome
  for one entry-point call is an argument of the model, the record \<open>env\<close>; every
  theorem holds for every such outcome unless it says otherwise. The context lock is
  not modelled: one entry point runs at a time, and a token or session that another
  thread holds while it runs is simply part of the context the call starts from.
\<close>

subsection \<open>Constants\<close>

type_synonym u32 = "32 word"
type_synonym u64 = "64 word"

text \<open>Error numbers of \<open>linux/errno.h\<close>.\<close>

definition ENOMEM :: int where "ENOMEM = 12"
definition EACCES :: int where "EACCES = 13"
definition EINVAL :: int where "EINVAL = 22"
definition ENOSPC :: int where "ENOSPC = 28"
definition INT_MAX :: int where "INT_MAX = 2147483647"
definition INT_MIN :: int where "INT_MIN = - 2147483648"

text \<open>
  The headers \<open>mipstee_private.h\<close> and \<open>mipstee_msg.h\<close> are not among the sources.
  The result codes and login classes are those of the GlobalPlatform TEE Client API,
  the command numbers and attribute bits those of the OP-TEE message format the driver
  derives from. Only that \<open>TEEC_SUCCESS\<close> differs from \<open>TEEC_ERROR_COMMUNICATION\<close> and
  that \<open>MIPSTEE_MSG_CMD_CANCEL\<close> differs from the other three commands matters below.
\<close>

definition TEEC_SUCCESS :: u32 where "TEEC_SUCCESS = 0"
definition TEEC_ERROR_COMMUNICATION :: u32 where "TEEC_ERROR_COMMUNICATION = 0xFFFF000E"
definition TEEC_ORIGIN_COMMS :: u32 where "TEEC_ORIGIN_COMMS = 2"

definition TEEC_LOGIN_PUBLIC :: u32 where "TEEC_LOGIN_PUBLIC = 0"
definition TEEC_LOGIN_USER :: u32 where "TEEC_LOGIN_USER = 1"
definition TEEC_LOGIN_GROUP :: u32 where "TEEC_LOGIN_GROUP = 2"
definition TEEC_LOGIN_APPLICATION :: u32 where "TEEC_LOGIN_APPLICATION = 4"
definition TEEC_LOGIN_USER_APPLICATION :: u32 where "TEEC_LOGIN_USER_APPLICATION = 5"
definition TEEC_LOGIN_GROUP_APPLICATION :: u32 where "TEEC_LOGIN_GROUP_APPLICATION = 6"

definition MIPSTEE_MSG_CMD_OPEN_SESSION :: u32 where "MIPSTEE_MSG_CMD_OPEN_SESSION = 0"
definition MIPSTEE_MSG_CMD_INVOKE_COMMAND :: u32 where "MIPSTEE_MSG_CMD_INVOKE_COMMAND = 1"
definition MIPSTEE_MSG_CMD_CLOSE_SESSION :: u32 where "MIPSTEE_MSG_CMD_CLOSE_SESSION = 2"
definition MIPSTEE_MSG_CMD_CANCEL :: u32 where "MIPSTEE_MSG_CMD_CANCEL = 3"

definition MIPSTEE_MSG_ATTR_TYPE_VALUE_INPUT :: u64 where
  "MIPSTEE_MSG_ATTR_TYPE_VALUE_INPUT = 1"
definition MIPSTEE_MSG_ATTR_META :: u64 where
  "MIPSTEE_MSG_ATTR_META = 256"

subsection \<open>Data\<close>

text \<open>\<open>struct mipstee_session\<close>: the list node carries the session id only.\<close>

record mipstee_session =
  session_id :: u32

text \<open>
  One parameter slot of a message, seen through the \<open>u.value\<close> member of its union
  (three 64-bit words), which is the only member the file writes.
\<close>

record mipstee_msg_param =
  attr :: u64
  value_a :: u64
  value_b :: u64
  value_c :: u64

text \<open>\<open>struct mipstee_msg_arg\<close>: the message header and its parameter slots.\<close>

record mipstee_msg_arg =
  cmd :: u32
  func :: u32
  session :: u32
  cancel_id :: u32
  ret :: u32
  ret_origin :: u32
  num_params :: u32
  params :: "mipstee_msg_param list"

text \<open>
  \<open>struct tee_param\<close>, the caller's representation of a parameter. The file never
  looks inside it: it only hands the array to the parameter codec.
\<close>

record tee_param =
  tp_attr :: u64
  tp_a :: u64
  tp_b :: u64
  tp_c :: u64

text \<open>
  \<open>struct tee_ioctl_open_session_arg\<close> and \<open>struct tee_ioctl_invoke_arg\<close>. The 16
  bytes of the uuid are kept as the two 64-bit words that \<open>memcpy\<close> lays over the
  \<open>a\<close> and \<open>b\<close> members of a value slot.
\<close>

record tee_ioctl_open_session_arg =
  arg_uuid :: "u64 \<times> u64"
  arg_clnt_login :: u32
  arg_cancel_id :: u32
  arg_session :: u32
  arg_ret :: u32
  arg_ret_origin :: u32
  arg_num_params :: u32

record tee_ioctl_invoke_arg =
  inv_func :: u32
  inv_session :: u32
  inv_cancel_id :: u32
  inv_ret :: u32
  inv_ret_origin :: u32
  inv_num_params :: u32

text \<open>
  What an entry point does to the world outside the context: message buffers taken
  from and given back to the shared-memory allocator (each buffer has a handle), calls
  of the parameter codec with their status, and messages handed to the channel with
  the status the channel returned.
\<close>

datatype event =
    ShmAlloc nat
  | ShmFree nat
  | ToMsgParam int
  | FromMsgParam int
  | TipcCall mipstee_msg_arg int
  | TipcWrite mipstee_msg_arg int

text \<open>
  The kernel's \<open>struct idr\<close>: live ids with the pointers stored under them, and the
  position of the cyclic allocator. The driver stores the caller's cancel id itself as
  the pointer.
\<close>

record idr =
  idr_entries :: "(int \<times> u32) list"
  idr_next :: int

text \<open>
  \<open>struct tee_context\<close> with its \<open>struct mipstee_context_data\<close>: the session list
  and the cancellation idr. \<open>shm_next\<close> is the handle the allocator gives to the next
  buffer and \<open>klog\<close> the events so far.
\<close>

record tee_context =
  sess_list :: "mipstee_session list"
  cancel_idr :: idr
  shm_next :: nat
  klog :: "event list"

text \<open>
  The outcome of the kernel functions called during one entry-point call:
  \<^item> \<open>tee_shm_alloc_err\<close>: \<open>None\<close> when \<open>tee_shm_alloc\<close> returns a buffer, \<open>Some e\<close>
    when it returns \<open>ERR_PTR(e)\<close>;
  \<^item> \<open>tee_shm_get_va_err\<close>: the same for \<open>tee_shm_get_va\<close>;
  \<^item> \<open>tee_shm_get_pa_rc\<close>: the status of \<open>tee_shm_get_pa\<close>;
  \<^item> \<open>idr_enomem\<close>: \<open>idr_alloc_cyclic\<close> cannot get memory for a new node;
  \<^item> \<open>to_msg_param_res\<close>, \<open>from_msg_param_res\<close>: the parameter codec, giving a
    status and the slots (the caller's array) as it leaves them;
  \<^item> \<open>kzalloc_fails\<close>: no memory for the session record;
  \<^item> \<open>tipc_call_res\<close>: the blocking round trip, giving a status and the buffer as
    the secure world leaves it; \<open>tipc_write_res\<close>: the one-way write, giving a status.
  An error pointer carries a value between \<open>-4095\<close> and \<open>-1\<close>, and
  \<open>tee_shm_get_pa\<close> returns 0 or such a value.
\<close>

record env =
  tee_shm_alloc_err :: "int option"
  tee_shm_get_va_err :: "int option"
  tee_shm_get_pa_rc :: int
  idr_enomem :: bool
  to_msg_param_res ::
    "tee_param list \<Rightarrow> mipstee_msg_param list \<Rightarrow> int \<times> mipstee_msg_param list"
  kzalloc_fails :: bool
  tipc_call_res :: "mipstee_msg_arg \<Rightarrow> int \<times> mipstee_msg_arg"
  tipc_write_res :: "mipstee_msg_arg \<Rightarrow> int"
  from_msg_param_res ::
    "tee_param list \<Rightarrow> mipstee_msg_param list \<Rightarrow> int \<times> tee_param list"

subsection \<open>The kernel's idr\<close>

text \<open>
  Modelled from the spec: \<open>idr_for_each\<close>, \<open>idr_alloc_cyclic\<close> and \<open>idr_remove\<close> are
  kernel library functions (lib/idr.c), not in the file. The registry "scans all live
  entries", "allocates a fresh token id cyclically from the valid range" and reports
  exhausted space; this is the kernel's contract for the three functions.

  \<open>idr_for_each\<close> calls the function on every entry in increasing order of id and
  stops at the first call that returns non-zero, returning that value; it returns 0
  when no call does.
\<close>

fun idr_for_each_from :: "(int \<times> u32) list \<Rightarrow> (int \<Rightarrow> u32 \<Rightarrow> u32 \<Rightarrow> int) \<Rightarrow> u32 \<Rightarrow> int" where
  "idr_for_each_from [] fn data = 0"
| "idr_for_each_from ((i, p) # es) fn data =
     (if fn i p data \<noteq> 0 then fn i p data else idr_for_each_from es fn data)"

definition idr_for_each :: "idr \<Rightarrow> (int \<Rightarrow> u32 \<Rightarrow> u32 \<Rightarrow> int) \<Rightarrow> u32 \<Rightarrow> int" where
  "idr_for_each t fn data = idr_for_each_from (sort_key fst (idr_entries t)) fn data"

text \<open>
  The lowest free id in \<open>lo .. hi\<close>, if any. Among the first \<open>n + 1\<close> candidates one
  is free when \<open>n\<close> ids are live, so the search stops there.
\<close>

definition idr_get_free :: "idr \<Rightarrow> int \<Rightarrow> int \<Rightarrow> int option" where
  "idr_get_free t lo hi =
     List.find (\<lambda>i. i \<notin> fst ` set (idr_entries t))
       [lo .. min hi (lo + int (length (idr_entries t)))]"

text \<open>
  \<open>idr_alloc_cyclic(idr, ptr, start, 0, gfp)\<close>: the end 0 stands for \<open>INT_MAX\<close>. The
  search starts at \<open>idr_next\<close> (at \<open>start\<close> if that is larger) and wraps around to
  \<open>start\<close> once. The result is the new id, \<open>-ENOMEM\<close> or \<open>-ENOSPC\<close>. After the id
  \<open>INT_MAX\<close> the next search starts at \<open>start\<close>, here because the range above is empty.
\<close>

definition idr_alloc_cyclic :: "env \<Rightarrow> idr \<Rightarrow> u32 \<Rightarrow> int \<Rightarrow> int \<times> idr" where
  "idr_alloc_cyclic e t ptr start =
     (if idr_enomem e then (- ENOMEM, t)
      else
        let curr = (if idr_next t < start then start else idr_next t);
            found = (case idr_get_free t curr INT_MAX of
                       Some i \<Rightarrow> Some i
                     | None \<Rightarrow> if curr > start then idr_get_free t start (curr - 1) else None)
        in case found of
             None \<Rightarrow> (- ENOSPC, t)
           | Some i \<Rightarrow> (i, t\<lparr>idr_entries := (i, ptr) # idr_entries t, idr_next := i + 1\<rparr>))"

definition idr_remove :: "idr \<Rightarrow> int \<Rightarrow> idr" where
  "idr_remove t i = t\<lparr>idr_entries := filter (\<lambda>(k, p). k \<noteq> i) (idr_entries t)\<rparr>"

subsection \<open>The allocator, the codec and the channel\<close>

text \<open>Each call of a collaborator is logged; its result comes from the \<open>env\<close>.\<close>

definition tee_shm_alloc :: "env \<Rightarrow> tee_context \<Rightarrow> (int + nat) \<times> tee_context" where
  "tee_shm_alloc e ctx =
     (case tee_shm_alloc_err e of
        Some err \<Rightarrow> (Inl err, ctx)
      | None \<Rightarrow>
          (Inr (shm_next ctx),
           ctx\<lparr>shm_next := Suc (shm_next ctx), klog := klog ctx @ [ShmAlloc (shm_next ctx)]\<rparr>))"

definition tee_shm_free :: "nat \<Rightarrow> tee_context \<Rightarrow> tee_context" where
  "tee_shm_free shm ctx = ctx\<lparr>klog := klog ctx @ [ShmFree shm]\<rparr>"

definition mipstee_to_msg_param ::
  "env \<Rightarrow> tee_context \<Rightarrow> tee_param list \<Rightarrow> mipstee_msg_param list \<Rightarrow>
     int \<times> mipstee_msg_param list \<times> tee_context" where
  "mipstee_to_msg_param e ctx param slots =
     (let (rc, slots') = to_msg_param_res e param slots
      in (rc, slots', ctx\<lparr>klog := klog ctx @ [ToMsgParam rc]\<rparr>))"

definition mipstee_from_msg_param ::
  "env \<Rightarrow> tee_context \<Rightarrow> tee_param list \<Rightarrow> mipstee_msg_param list \<Rightarrow>
     int \<times> tee_param list \<times> tee_context" where
  "mipstee_from_msg_param e ctx param slots =
     (let (rc, param') = from_msg_param_res e param slots
      in (rc, param', ctx\<lparr>klog := klog ctx @ [FromMsgParam rc]\<rparr>))"

definition tipc_call ::
  "env \<Rightarrow> tee_context \<Rightarrow> mipstee_msg_arg \<Rightarrow> int \<times> mipstee_msg_arg \<times> tee_context" where
  "tipc_call e ctx msg_arg =
     (let (rc, msg_arg') = tipc_call_res e msg_arg
      in (rc, msg_arg', ctx\<lparr>klog := klog ctx @ [TipcCall msg_arg rc]\<rparr>))"

definition tipc_write ::
  "env \<Rightarrow> tee_context \<Rightarrow> mipstee_msg_arg \<Rightarrow> int \<times> tee_context" where
  "tipc_write e ctx msg_arg =
     (let rc = tipc_write_res e msg_arg
      in (rc, ctx\<lparr>klog := klog ctx @ [TipcWrite msg_arg rc]\<rparr>))"

subsection \<open>The functions of the file\<close>

text \<open>\<open>find_session\<close>: the first record of the list with the given id.\<close>

fun find_session_from :: "mipstee_session list \<Rightarrow> u32 \<Rightarrow> mipstee_session option" where
  "find_session_from [] sid = None"
| "find_session_from (sess # rest) sid =
     (if session_id sess = sid then Some sess else find_session_from rest sid)"

definition find_session :: "tee_context \<Rightarrow> u32 \<Rightarrow> mipstee_session option" where
  "find_session ctxdata sid = find_session_from (sess_list ctxdata) sid"

text \<open>
  \<open>mipstee_do_call_with_arg\<close>: a cancel message is written, any other message is a
  round trip. The result is a \<open>u32\<close>: the negative status converted, or 0.
\<close>

definition mipstee_do_call_with_arg ::
  "env \<Rightarrow> tee_context \<Rightarrow> mipstee_msg_arg \<Rightarrow> u32 \<times> mipstee_msg_arg \<times> tee_context" where
  "mipstee_do_call_with_arg e ctx msg_arg =
     (let (rc, msg_arg', ctx') =
            (if cmd msg_arg = MIPSTEE_MSG_CMD_CANCEL
             then (let (rc, ctx') = tipc_write e ctx msg_arg in (rc, msg_arg, ctx'))
             else tipc_call e ctx msg_arg)
      in if rc < 0 then (word_of_int rc, msg_arg', ctx') else (0, msg_arg', ctx'))"

text \<open>
  \<open>get_msg_arg\<close>: a zeroed message with \<open>num_params\<close> slots in a fresh buffer, or the
  error (\<open>Inl\<close>) with the buffer freed again when it had been allocated.
\<close>

definition zero_param :: mipstee_msg_param where
  "zero_param = \<lparr>attr = 0, value_a = 0, value_b = 0, value_c = 0\<rparr>"

definition zero_msg_arg :: "u32 \<Rightarrow> mipstee_msg_arg" where
  "zero_msg_arg n =
     \<lparr>cmd = 0, func = 0, session = 0, cancel_id = 0, ret = 0, ret_origin = 0,
      num_params = n, params = replicate (unat n) zero_param\<rparr>"

definition get_msg_arg ::
  "env \<Rightarrow> tee_context \<Rightarrow> u32 \<Rightarrow> (int + nat \<times> mipstee_msg_arg) \<times> tee_context" where
  "get_msg_arg e ctx n =
     (case tee_shm_alloc e ctx of
        (Inl err, ctx1) \<Rightarrow> (Inl err, ctx1)
      | (Inr shm, ctx1) \<Rightarrow>
          (case tee_shm_get_va_err e of
             Some err \<Rightarrow> (Inl err, tee_shm_free shm ctx1)
           | None \<Rightarrow>
               if tee_shm_get_pa_rc e \<noteq> 0
               then (Inl (tee_shm_get_pa_rc e), tee_shm_free shm ctx1)
               else (Inr (shm, zero_msg_arg n), ctx1)))"

text \<open>
  \<open>mipstee_authenticate_client\<close>: the six login classes fall through to the common
  code, which copies the 16 zero bytes of \<open>clnt_uuid\<close> over the \<open>a\<close> and \<open>b\<close> members
  of slot 1 and stores the login class in its \<open>c\<close> member; any other class returns
  \<open>EACCES\<close> (the positive number, as the source has it).
\<close>

definition mipstee_authenticate_client ::
  "mipstee_msg_arg \<Rightarrow> u32 \<Rightarrow> int \<times> mipstee_msg_arg" where
  "mipstee_authenticate_client msg_arg clnt_login =
     (if clnt_login = TEEC_LOGIN_PUBLIC \<or> clnt_login = TEEC_LOGIN_USER
         \<or> clnt_login = TEEC_LOGIN_GROUP \<or> clnt_login = TEEC_LOGIN_APPLICATION
         \<or> clnt_login = TEEC_LOGIN_USER_APPLICATION
         \<or> clnt_login = TEEC_LOGIN_GROUP_APPLICATION
      then
        let p1 = (params msg_arg ! 1)\<lparr>value_a := 0, value_b := 0\<rparr>;
            p1' = p1\<lparr>value_c := ucast clnt_login\<rparr>
        in (0, msg_arg\<lparr>params := (params msg_arg)[1 := p1']\<rparr>)
      else (EACCES, msg_arg))"

definition match_cancel_id :: "int \<Rightarrow> u32 \<Rightarrow> u32 \<Rightarrow> int" where
  "match_cancel_id i p data = (if p = data then i else 0)"

definition mipstee_alloc_cancel_idr :: "env \<Rightarrow> tee_context \<Rightarrow> u32 \<Rightarrow> int \<times> tee_context" where
  "mipstee_alloc_cancel_idr e ctxdata cid =
     (if cid = 0 then (0, ctxdata)
      else
        let idr_id = idr_for_each (cancel_idr ctxdata) match_cancel_id cid
        in if idr_id \<noteq> 0 then (- EINVAL, ctxdata)
           else
             let (idr_id', t) = idr_alloc_cyclic e (cancel_idr ctxdata) cid 1
             in (idr_id', ctxdata\<lparr>cancel_idr := t\<rparr>))"

definition mipstee_remove_cancel_idr :: "tee_context \<Rightarrow> int \<Rightarrow> tee_context" where
  "mipstee_remove_cancel_idr ctxdata idr_id =
     (if idr_id = 0 then ctxdata
      else ctxdata\<lparr>cancel_idr := idr_remove (cancel_idr ctxdata) idr_id\<rparr>)"

definition mipstee_find_cancel_idr :: "tee_context \<Rightarrow> u32 \<Rightarrow> int" where
  "mipstee_find_cancel_idr ctxdata cid =
     (if cid = 0 then 0
      else idr_for_each (cancel_idr ctxdata) match_cancel_id cid)"

text \<open>
  \<open>mipstee_close_session\<close>: the record is unlinked first; without one the call fails
  with \<open>-EINVAL\<close>. A buffer that cannot be had ends the call with that error, the
  record staying unlinked. The status of the round trip is dropped.
\<close>

definition mipstee_close_session :: "env \<Rightarrow> tee_context \<Rightarrow> u32 \<Rightarrow> int \<times> tee_context" where
  "mipstee_close_session e ctx sid =
     (case find_session ctx sid of
        None \<Rightarrow> (- EINVAL, ctx)
      | Some sess \<Rightarrow>
          let ctx1 = ctx\<lparr>sess_list := remove1 sess (sess_list ctx)\<rparr>
          in case get_msg_arg e ctx1 0 of
               (Inl err, ctx2) \<Rightarrow> (err, ctx2)
             | (Inr (shm, msg_arg), ctx2) \<Rightarrow>
                 let msg_arg1 = msg_arg\<lparr>cmd := MIPSTEE_MSG_CMD_CLOSE_SESSION\<rparr>;
                     msg_arg2 = msg_arg1\<lparr>session := sid\<rparr>;
                     (r, msg_arg3, ctx3) = mipstee_do_call_with_arg e ctx2 msg_arg2
                 in (0, tee_shm_free shm ctx3))"

text \<open>
  The label \<open>out\<close> of \<open>mipstee_open_session\<close> and \<open>mipstee_invoke_func\<close>: the token
  is released and the buffer freed.
\<close>

definition out_label :: "tee_context \<Rightarrow> int \<Rightarrow> nat \<Rightarrow> tee_context" where
  "out_label ctx idr_id shm = tee_shm_free shm (mipstee_remove_cancel_idr ctx idr_id)"

definition comm_error :: "mipstee_msg_arg \<Rightarrow> mipstee_msg_arg" where
  "comm_error msg_arg =
     msg_arg\<lparr>ret := TEEC_ERROR_COMMUNICATION, ret_origin := TEEC_ORIGIN_COMMS\<rparr>"

text \<open>
  The meta parameters of an open-session message (lines 256 to 260 of the file): the
  attributes of slots 0 and 1, and the uuid copied over the value of slot 0.
\<close>

definition open_session_meta :: "mipstee_msg_arg \<Rightarrow> u64 \<times> u64 \<Rightarrow> mipstee_msg_arg" where
  "open_session_meta msg_arg uuid =
     (let p0 = (params msg_arg ! 0)
                 \<lparr>attr := MIPSTEE_MSG_ATTR_TYPE_VALUE_INPUT OR MIPSTEE_MSG_ATTR_META\<rparr>;
          p1 = (params msg_arg ! 1)
                 \<lparr>attr := MIPSTEE_MSG_ATTR_TYPE_VALUE_INPUT OR MIPSTEE_MSG_ATTR_META\<rparr>;
          p0' = p0\<lparr>value_a := fst uuid, value_b := snd uuid\<rparr>
      in msg_arg\<lparr>params := (params msg_arg)[0 := p0', 1 := p1]\<rparr>)"

text \<open>
  \<open>mipstee_open_session\<close> is modelled in two parts. \<open>open_session_exchange\<close> is the
  second half of the function (lines 280 to 306 of the file): the round trip, the
  forced communication error when it fails, the new record linked into the session
  list when the message reports success, and the conversion of the parameters back,
  whose failure closes the session again. \<open>ce\<close> is the outcome of the kernel functions
  during that inner \<open>mipstee_close_session\<close>. The record that \<open>kzalloc\<close> returned is
  either linked into the list or freed, so it appears only as the list element.
\<close>

definition open_session_exchange ::
  "env \<Rightarrow> env \<Rightarrow> tee_context \<Rightarrow> tee_ioctl_open_session_arg \<Rightarrow> tee_param list \<Rightarrow>
     mipstee_msg_arg \<Rightarrow> tee_ioctl_open_session_arg \<times> tee_param list \<times> tee_context" where
  "open_session_exchange e ce ctx arg param msg_arg =
     (let (r, msg_arg6, ctx3) = mipstee_do_call_with_arg e ctx msg_arg;
          msg_arg7 = (if r \<noteq> 0 then comm_error msg_arg6 else msg_arg6);
          ctx4 = (if ret msg_arg7 = TEEC_SUCCESS
                  then ctx3\<lparr>sess_list := \<lparr>session_id = session msg_arg7\<rparr> # sess_list ctx3\<rparr>
                  else ctx3);
          (frc, param', ctx5) =
            mipstee_from_msg_param e ctx4 param (drop 2 (params msg_arg7))
      in if frc \<noteq> 0 then
           let arg1 = arg\<lparr>arg_ret := TEEC_ERROR_COMMUNICATION,
                          arg_ret_origin := TEEC_ORIGIN_COMMS\<rparr>;
               (crc, ctx6) = mipstee_close_session ce ctx5 (session msg_arg7)
           in (arg1, param', ctx6)
         else
           let arg1 = arg\<lparr>arg_session := session msg_arg7,
                          arg_ret := ret msg_arg7,
                          arg_ret_origin := ret_origin msg_arg7\<rparr>
           in (arg1, param', ctx5))"

text \<open>
  \<open>mipstee_open_session\<close>. The result is the status, the caller's argument structure
  and parameter array as the call leaves them, and the context. The buffer has
  \<open>num_params + 2\<close> slots (in \<open>u32\<close> arithmetic, as in the source; the ioctl layer
  bounds \<open>num_params\<close> far below the wrap-around, where slots 0 and 1 would not
  exist). Every exit after the buffer was acquired goes through the label \<open>out\<close>.
\<close>

definition mipstee_open_session ::
  "env \<Rightarrow> env \<Rightarrow> tee_context \<Rightarrow> tee_ioctl_open_session_arg \<Rightarrow> tee_param list \<Rightarrow>
     int \<times> tee_ioctl_open_session_arg \<times> tee_param list \<times> tee_context" where
  "mipstee_open_session e ce ctx arg param =
     (case get_msg_arg e ctx (arg_num_params arg + 2) of
        (Inl err, ctx1) \<Rightarrow> (err, arg, param, ctx1)
      | (Inr (shm, msg_arg), ctx1) \<Rightarrow>
          let msg_arg1 = msg_arg\<lparr>cmd := MIPSTEE_MSG_CMD_OPEN_SESSION\<rparr>;
              (rc, ctx2) = mipstee_alloc_cancel_idr e ctx1 (arg_cancel_id arg)
          in if rc < 0 then (rc, arg, param, out_label ctx2 0 shm)
             else
               let idr_id = rc;
                   msg_arg2 = msg_arg1\<lparr>cancel_id := word_of_int idr_id\<rparr>;
                   msg_arg3 = open_session_meta msg_arg2 (arg_uuid arg);
                   (rc, msg_arg4) = mipstee_authenticate_client msg_arg3 (arg_clnt_login arg)
               in if rc \<noteq> 0 then (rc, arg, param, out_label ctx2 idr_id shm)
                  else
                    let (rc, slots, ctx2a) =
                          mipstee_to_msg_param e ctx2 param (drop 2 (params msg_arg4));
                        msg_arg5 = msg_arg4\<lparr>params := take 2 (params msg_arg4) @ slots\<rparr>
                    in if rc \<noteq> 0 then (rc, arg, param, out_label ctx2a idr_id shm)
                       else if kzalloc_fails e
                       then (- ENOMEM, arg, param, out_label ctx2a idr_id shm)
                       else
                         let (arg1, param', ctx6) =
                               open_session_exchange e ce ctx2a arg param msg_arg5
                         in (rc, arg1, param', out_label ctx6 idr_id shm))"

text \<open>\<open>mipstee_invoke_func\<close>.\<close>

definition mipstee_invoke_func ::
  "env \<Rightarrow> tee_context \<Rightarrow> tee_ioctl_invoke_arg \<Rightarrow> tee_param list \<Rightarrow>
     int \<times> tee_ioctl_invoke_arg \<times> tee_param list \<times> tee_context" where
  "mipstee_invoke_func e ctx arg param =
     (case find_session ctx (inv_session arg) of
        None \<Rightarrow> (- EINVAL, arg, param, ctx)
      | Some sess \<Rightarrow>
          (case get_msg_arg e ctx (inv_num_params arg) of
             (Inl err, ctx1) \<Rightarrow> (err, arg, param, ctx1)
           | (Inr (shm, msg_arg), ctx1) \<Rightarrow>
               let msg_arg1 = msg_arg\<lparr>cmd := MIPSTEE_MSG_CMD_INVOKE_COMMAND,
                                      func := inv_func arg, session := inv_session arg\<rparr>;
                   (rc, ctx2) = mipstee_alloc_cancel_idr e ctx1 (inv_cancel_id arg)
               in if rc < 0 then (rc, arg, param, out_label ctx2 0 shm)
                  else
                    let idr_id = rc;
                        msg_arg2 = msg_arg1\<lparr>cancel_id := word_of_int idr_id\<rparr>;
                        (rc, slots, ctx2a) =
                          mipstee_to_msg_param e ctx2 param (params msg_arg2);
                        msg_arg3 = msg_arg2\<lparr>params := slots\<rparr>
                    in if rc \<noteq> 0 then (rc, arg, param, out_label ctx2a idr_id shm)
                       else
                         let (r, msg_arg4, ctx3) = mipstee_do_call_with_arg e ctx2a msg_arg3;
                             msg_arg5 = (if r \<noteq> 0 then comm_error msg_arg4 else msg_arg4);
                             (frc, param', ctx4) =
                               mipstee_from_msg_param e ctx3 param (params msg_arg5);
                             msg_arg6 = (if frc \<noteq> 0 then comm_error msg_arg5 else msg_arg5);
                             arg1 = arg\<lparr>inv_ret := ret msg_arg6,
                                        inv_ret_origin := ret_origin msg_arg6\<rparr>
                         in (rc, arg1, param', out_label ctx4 idr_id shm)))"

text \<open>\<open>mipstee_cancel_req\<close>. The status of the write is dropped.\<close>

definition mipstee_cancel_req :: "env \<Rightarrow> tee_context \<Rightarrow> u32 \<Rightarrow> u32 \<Rightarrow> int \<times> tee_context" where
  "mipstee_cancel_req e ctx cid sid =
     (if sid \<noteq> 0 \<and> find_session ctx sid = None then (- EINVAL, ctx)
      else
        let idr_id = mipstee_find_cancel_idr ctx cid
        in if idr_id = 0 then (- EINVAL, ctx)
           else
             (case get_msg_arg e ctx 0 of
                (Inl err, ctx1) \<Rightarrow> (err, ctx1)
              | (Inr (shm, msg_arg), ctx1) \<Rightarrow>
                  let msg_arg1 = msg_arg\<lparr>cmd := MIPSTEE_MSG_CMD_CANCEL, session := sid,
                                         cancel_id := word_of_int idr_id\<rparr>;
                      (r, msg_arg2, ctx2) = mipstee_do_call_with_arg e ctx1 msg_arg1
                  in (0, tee_shm_free shm ctx2)))"

subsection \<open>An open-session call at its round trip\<close>

text \<open>
  \<open>open_session_in_flight\<close> is the first half of \<open>mipstee_open_session\<close> (lines 240 to
  278 of the file) taken by itself: when the call reaches the round trip, the context
  as it is while the call waits for the peer (the buffer allocated, the token in the
  idr, nothing released yet), the message handed to the channel, the token and the
  buffer; \<open>None\<close> when the call ends before the round trip. The facts
  \<open>open_session_in_flight_run\<close> and \<open>open_session_not_in_flight\<close> below relate it to
  \<open>mipstee_open_session\<close>. A second thread that calls into the driver while the first
  waits starts from this context.
\<close>

definition open_session_in_flight ::
  "env \<Rightarrow> tee_context \<Rightarrow> tee_ioctl_open_session_arg \<Rightarrow> tee_param list \<Rightarrow>
     (tee_context \<times> mipstee_msg_arg \<times> int \<times> nat) option" where
  "open_session_in_flight e ctx arg param =
     (case get_msg_arg e ctx (arg_num_params arg + 2) of
        (Inl err, ctx1) \<Rightarrow> None
      | (Inr (shm, msg_arg), ctx1) \<Rightarrow>
          let msg_arg1 = msg_arg\<lparr>cmd := MIPSTEE_MSG_CMD_OPEN_SESSION\<rparr>;
              (rc, ctx2) = mipstee_alloc_cancel_idr e ctx1 (arg_cancel_id arg)
          in if rc < 0 then None
             else
               let idr_id = rc;
                   msg_arg2 = msg_arg1\<lparr>cancel_id := word_of_int idr_id\<rparr>;
                   msg_arg3 = open_session_meta msg_arg2 (arg_uuid arg);
                   (rc, msg_arg4) = mipstee_authenticate_client msg_arg3 (arg_clnt_login arg)
               in if rc \<noteq> 0 then None
                  else
                    let (rc, slots, ctx2a) =
                          mipstee_to_msg_param e ctx2 param (drop 2 (params msg_arg4));
                        msg_arg5 = msg_arg4\<lparr>params := take 2 (params msg_arg4) @ slots\<rparr>
                    in if rc \<noteq> 0 then None
                       else if kzalloc_fails e then None
                       else Some (ctx2a, msg_arg5, idr_id, shm))"

text \<open>
  The message as \<open>mipstee_open_session\<close> reads it after the round trip (lines 280 to
  283): the buffer as the peer left it, with the result forced to the communication
  error when \<open>mipstee_do_call_with_arg\<close> returned non-zero, that is, when the status of
  the round trip was negative.
\<close>

definition open_answer :: "env \<Rightarrow> mipstee_msg_arg \<Rightarrow> mipstee_msg_arg" where
  "open_answer e m =
     (if fst (tipc_call_res e m) < 0 \<and> (word_of_int (fst (tipc_call_res e m)) :: u32) \<noteq> 0
      then comm_error (snd (tipc_call_res e m)) else snd (tipc_call_res e m))"

subsection \<open>Sequences of calls on one context\<close>

text \<open>
  Modelled from the spec: the creation of a context is not in the file. A Context is
  "created when a client connection is established" and owns a Session Registry and a
  Cancellation Token Registry, both empty at that point.
\<close>

definition mipstee_ctx_init :: tee_context where
  "mipstee_ctx_init =
     \<lparr>sess_list = [], cancel_idr = \<lparr>idr_entries = [], idr_next = 0\<rparr>,
      shm_next = 0, klog = []\<rparr>"

datatype call =
    OpenSession env env tee_ioctl_open_session_arg "tee_param list"
  | CloseSession env u32
  | InvokeFunc env tee_ioctl_invoke_arg "tee_param list"
  | CancelReq env u32 u32

fun exec_call :: "call \<Rightarrow> tee_context \<Rightarrow> tee_context" where
  "exec_call (OpenSession e ce arg param) ctx =
     snd (snd (snd (mipstee_open_session e ce ctx arg param)))"
| "exec_call (CloseSession e sid) ctx = snd (mipstee_close_session e ctx sid)"
| "exec_call (InvokeFunc e arg param) ctx =
     snd (snd (snd (mipstee_invoke_func e ctx arg param)))"
| "exec_call (CancelReq e cid sid) ctx = snd (mipstee_cancel_req e ctx cid sid)"

fun exec_calls :: "call list \<Rightarrow> tee_context \<Rightarrow> tee_context" where
  "exec_calls [] ctx = ctx"
| "exec_calls (c # cs) ctx = exec_calls cs (exec_call c ctx)"

subsection \<open>Notions of the specification\<close>

text \<open>The events of one call: those the log gained between two contexts.\<close>

definition new_events :: "tee_context \<Rightarrow> tee_context \<Rightarrow> event list" where
  "new_events ctx ctx' = drop (length (klog ctx)) (klog ctx')"

fun shm_allocs :: "event list \<Rightarrow> nat list" where
  "shm_allocs [] = []"
| "shm_allocs (ShmAlloc h # evs) = h # shm_allocs evs"
| "shm_allocs (ev # evs) = shm_allocs evs"

fun shm_frees :: "event list \<Rightarrow> nat list" where
  "shm_frees [] = []"
| "shm_frees (ShmFree h # evs) = h # shm_frees evs"
| "shm_frees (ev # evs) = shm_frees evs"

text \<open>
  No leak and no double free: the buffers allocated are distinct and are, as a
  multiset, the buffers freed.
\<close>

definition buffers_balanced :: "event list \<Rightarrow> bool" where
  "buffers_balanced evs \<longleftrightarrow>
     length (shm_allocs evs) = length (shm_frees evs)
     \<and> mset (shm_allocs evs) = mset (shm_frees evs)
     \<and> distinct (shm_allocs evs)"

fun is_transport :: "event \<Rightarrow> bool" where
  "is_transport (TipcCall m rc) = True"
| "is_transport (TipcWrite m rc) = True"
| "is_transport ev = False"

text \<open>The three steps of \<open>get_msg_arg\<close> succeed.\<close>

definition buffer_acquired :: "env \<Rightarrow> bool" where
  "buffer_acquired e \<longleftrightarrow>
     tee_shm_alloc_err e = None \<and> tee_shm_get_va_err e = None \<and> tee_shm_get_pa_rc e = 0"

text \<open>
  What the kernel's allocator delivers: an error pointer carries a value between
  \<open>-4095\<close> and \<open>-1\<close>, and \<open>tee_shm_get_pa\<close> returns 0 or such a value.
\<close>

definition is_errno :: "int \<Rightarrow> bool" where
  "is_errno err \<longleftrightarrow> - 4095 \<le> err \<and> err < 0"

definition errptr_ok :: "env \<Rightarrow> bool" where
  "errptr_ok e \<longleftrightarrow>
     (case tee_shm_alloc_err e of None \<Rightarrow> True | Some err \<Rightarrow> is_errno err)
     \<and> (case tee_shm_get_va_err e of None \<Rightarrow> True | Some err \<Rightarrow> is_errno err)
     \<and> (tee_shm_get_pa_rc e = 0 \<or> is_errno (tee_shm_get_pa_rc e))"

text \<open>
  What the driver's use of the idr maintains: ids start at 1 and the cancel id 0 is
  never stored.
\<close>

definition idr_wf :: "idr \<Rightarrow> bool" where
  "idr_wf t \<longleftrightarrow> list_all (\<lambda>(i, p). 0 < i \<and> p \<noteq> 0) (idr_entries t)"

text \<open>A token is live for the cancel id.\<close>

definition cancel_live :: "tee_context \<Rightarrow> u32 \<Rightarrow> bool" where
  "cancel_live ctx cid \<longleftrightarrow> cid \<in> snd ` set (idr_entries (cancel_idr ctx))"

text \<open>The number of session records with the id.\<close>

definition sess_count :: "tee_context \<Rightarrow> u32 \<Rightarrow> nat" where
  "sess_count ctx sid = length (filter (\<lambda>sess. session_id sess = sid) (sess_list ctx))"

definition known_login :: "u32 \<Rightarrow> bool" where
  "known_login l \<longleftrightarrow>
     l = TEEC_LOGIN_PUBLIC \<or> l = TEEC_LOGIN_USER \<or> l = TEEC_LOGIN_GROUP
     \<or> l = TEEC_LOGIN_APPLICATION \<or> l = TEEC_LOGIN_USER_APPLICATION
     \<or> l = TEEC_LOGIN_GROUP_APPLICATION"

text \<open>
  The peer assigns fresh ids: when an open-session call reaches the round trip and the
  message it reads afterwards reports success (the round trip did not fail and the
  peer's answer says success), the session id in the answer is not in the registry at
  that moment. Nothing is asked of a call that ends before the round trip, of a round
  trip that fails, or of the other three operations.
\<close>

fun peer_assigns_fresh :: "call \<Rightarrow> tee_context \<Rightarrow> bool" where
  "peer_assigns_fresh (OpenSession e ce arg param) ctx =
     (case open_session_in_flight e ctx arg param of
        None \<Rightarrow> True
      | Some (c, m, idr_id, shm) \<Rightarrow>
          ret (open_answer e m) = TEEC_SUCCESS \<longrightarrow>
          find_session ctx (session (open_answer e m)) = None)"
| "peer_assigns_fresh c ctx = True"

fun peer_fresh_calls :: "call list \<Rightarrow> tee_context \<Rightarrow> bool" where
  "peer_fresh_calls [] ctx = True"
| "peer_fresh_calls (c # cs) ctx =
     (peer_assigns_fresh c ctx \<and> peer_fresh_calls cs (exec_call c ctx))"

subsection \<open>Example outcomes and inputs\<close>

text \<open>
  \<open>env_good sid\<close>: every kernel function succeeds, the codec leaves the slots and the
  array as they are, and the peer answers success with the session id \<open>sid\<close>.
\<close>

definition peer_opens :: "u32 \<Rightarrow> mipstee_msg_arg \<Rightarrow> int \<times> mipstee_msg_arg" where
  "peer_opens sid m = (0, m\<lparr>session := sid, ret := TEEC_SUCCESS\<rparr>)"

definition codec_in_ok ::
  "tee_param list \<Rightarrow> mipstee_msg_param list \<Rightarrow> int \<times> mipstee_msg_param list" where
  "codec_in_ok param slots = (0, slots)"

definition codec_out_ok ::
  "tee_param list \<Rightarrow> mipstee_msg_param list \<Rightarrow> int \<times> tee_param list" where
  "codec_out_ok param slots = (0, param)"

definition codec_out_fails ::
  "tee_param list \<Rightarrow> mipstee_msg_param list \<Rightarrow> int \<times> tee_param list" where
  "codec_out_fails param slots = (- EINVAL, param)"

definition write_ok :: "mipstee_msg_arg \<Rightarrow> int" where
  "write_ok m = 0"

definition write_fails :: "mipstee_msg_arg \<Rightarrow> int" where
  "write_fails m = - 5"

definition peer_unreachable :: "mipstee_msg_arg \<Rightarrow> int \<times> mipstee_msg_arg" where
  "peer_unreachable m = (- 5, m)"

definition env_good :: "u32 \<Rightarrow> env" where
  "env_good sid =
     \<lparr>tee_shm_alloc_err = None, tee_shm_get_va_err = None, tee_shm_get_pa_rc = 0,
      idr_enomem = False, to_msg_param_res = codec_in_ok, kzalloc_fails = False,
      tipc_call_res = peer_opens sid, tipc_write_res = write_ok,
      from_msg_param_res = codec_out_ok\<rparr>"

definition open_arg_example :: "u32 \<Rightarrow> u32 \<Rightarrow> tee_ioctl_open_session_arg" where
  "open_arg_example login cid =
     \<lparr>arg_uuid = (0, 0), arg_clnt_login = login, arg_cancel_id = cid, arg_session = 0,
      arg_ret = 0, arg_ret_origin = 0, arg_num_params = 0\<rparr>"

definition invoke_arg_example :: "u32 \<Rightarrow> tee_ioctl_invoke_arg" where
  "invoke_arg_example sid =
     \<lparr>inv_func = 1, inv_session = sid, inv_cancel_id = 0, inv_ret = 0,
      inv_ret_origin = 0, inv_num_params = 0\<rparr>"

text \<open>A context with the given session ids in its list, and one with one live token.\<close>

definition ctx_sessions :: "u32 list \<Rightarrow> tee_context" where
  "ctx_sessions sids = mipstee_ctx_init\<lparr>sess_list := map (\<lambda>sid. \<lparr>session_id = sid\<rparr>) sids\<rparr>"

definition ctx_token :: "int \<Rightarrow> u32 \<Rightarrow> tee_context" where
  "ctx_token i cid =
     mipstee_ctx_init\<lparr>cancel_idr := \<lparr>idr_entries = [(i, cid)], idr_next = i + 1\<rparr>\<rparr>"

text \<open>
  Outcomes with one failure: no memory for the message buffer, a peer that cannot be
  reached, a write the channel refuses, a back-conversion that fails.
\<close>

definition env_no_buffer :: env where
  "env_no_buffer = (env_good 0)\<lparr>tee_shm_alloc_err := Some (- ENOMEM)\<rparr>"

definition env_peer_unreachable :: env where
  "env_peer_unreachable = (env_good 0)\<lparr>tipc_call_res := peer_unreachable\<rparr>"

definition env_write_fails :: env where
  "env_write_fails = (env_good 0)\<lparr>tipc_write_res := write_fails\<rparr>"

text \<open>
  The message that \<open>mipstee_open_session\<close> hands to the channel for a call with no
  parameters, the nil uuid, the public login class and the first token of the idr.
\<close>

definition open_request_example :: mipstee_msg_arg where
  "open_request_example =
     \<lparr>cmd = 0, func = 0, session = 0, cancel_id = 1, ret = 0, ret_origin = 0, num_params = 2,
      params = [\<lparr>attr = 257, value_a = 0, value_b = 0, value_c = 0\<rparr>,
                \<lparr>attr = 257, value_a = 0, value_b = 0, value_c = 0\<rparr>]\<rparr>"

text \<open>
  The context while an open-session call with cancel id 5 on a new context waits for
  the peer: buffer 0 allocated, token 1 live for cancel id 5.
\<close>

definition ctx_open_in_flight :: tee_context where
  "ctx_open_in_flight =
     \<lparr>sess_list = [], cancel_idr = \<lparr>idr_entries = [(1, 5)], idr_next = 2\<rparr>,
      shm_next = 1, klog = [ShmAlloc 0, ToMsgParam 0]\<rparr>"

text \<open>The peer opens session \<open>sid\<close>, and the conversion of the parameters back fails.\<close>

definition env_back_conversion_fails :: "u32 \<Rightarrow> env" where
  "env_back_conversion_fails sid = (env_good sid)\<lparr>from_msg_param_res := codec_out_fails\<rparr>"

text \<open>The message that \<open>mipstee_close_session\<close> hands to the channel.\<close>

definition close_request :: "u32 \<Rightarrow> mipstee_msg_arg" where
  "close_request sid = (zero_msg_arg 0)\<lparr>cmd := MIPSTEE_MSG_CMD_CLOSE_SESSION, session := sid\<rparr>"

text \<open>
  An open-session call in which everything succeeds and the peer answers with the
  session id \<open>sid\<close>; a sequence of calls of all four kinds, in which session 42 is
  opened, an open-session call fails at the round trip, another is rejected for its
  login class, and session 42 is used, closed and opened again.
\<close>

definition open_call :: "u32 \<Rightarrow> call" where
  "open_call sid =
     OpenSession (env_good sid) (env_good sid) (open_arg_example TEEC_LOGIN_PUBLIC 0) []"

definition calls_example :: "call list" where
  "calls_example =
     [open_call 42,
      OpenSession env_peer_unreachable (env_good 0) (open_arg_example TEEC_LOGIN_PUBLIC 0) [],
      OpenSession (env_good 42) (env_good 0) (open_arg_example 3 0) [],
      InvokeFunc (env_good 0) (invoke_arg_example 42) [],
      CancelReq (env_good 0) 7 0, CloseSession (env_good 0) 42, open_call 42]"

section \<open>Auxiliary facts\<close>

lemma shm_allocs_append [simp]: "shm_allocs (xs @ ys) = shm_allocs xs @ shm_allocs ys"
  by (induction xs rule: shm_allocs.induct) simp_all

lemma shm_frees_append [simp]: "shm_frees (xs @ ys) = shm_frees xs @ shm_frees ys"
  by (induction xs rule: shm_frees.induct) simp_all

lemma idr_for_each_from_match:
  "idr_for_each_from es match_cancel_id cid \<noteq> 0 \<longleftrightarrow> (\<exists>i. i \<noteq> 0 \<and> (i, cid) \<in> set es)"
  by (induction es match_cancel_id cid rule: idr_for_each_from.induct)
     (auto simp: match_cancel_id_def)

lemma idr_for_each_match_live:
  assumes "idr_wf t"
  shows "idr_for_each t match_cancel_id cid \<noteq> 0 \<longleftrightarrow> cid \<in> snd ` set (idr_entries t)"
proof -
  have pos: "\<And>i p. (i, p) \<in> set (idr_entries t) \<Longrightarrow> i \<noteq> 0"
    using assms by (auto simp: idr_wf_def list_all_iff)
  have "idr_for_each t match_cancel_id cid \<noteq> 0 \<longleftrightarrow>
          (\<exists>i. i \<noteq> 0 \<and> (i, cid) \<in> set (idr_entries t))"
    unfolding idr_for_each_def idr_for_each_from_match by simp
  also have "\<dots> \<longleftrightarrow> (\<exists>i. (i, cid) \<in> set (idr_entries t))"
    using pos by blast
  also have "\<dots> \<longleftrightarrow> cid \<in> snd ` set (idr_entries t)"
    by force
  finally show ?thesis .
qed

lemma find_SomeD: "List.find P xs = Some x \<Longrightarrow> P x \<and> x \<in> set xs"
  by (induction xs) (auto split: if_splits)

lemma idr_get_free_Some:
  "idr_get_free t lo hi = Some i \<Longrightarrow> lo \<le> i \<and> i \<le> hi \<and> i \<notin> fst ` set (idr_entries t)"
  unfolding idr_get_free_def
  by (auto dest!: find_SomeD)

lemma idr_alloc_cyclic_cases:
  assumes "idr_alloc_cyclic e t ptr 1 = (i, t')"
  shows "(i < 0 \<and> t' = t) \<or>
     (0 < i \<and> i \<notin> fst ` set (idr_entries t) \<and>
        t' = t\<lparr>idr_entries := (i, ptr) # idr_entries t, idr_next := i + 1\<rparr>)"
proof (cases "idr_enomem e")
  case True
  with assms show ?thesis by (simp add: idr_alloc_cyclic_def ENOMEM_def)
next
  case False
  define curr where "curr = (if idr_next t < 1 then 1 else idr_next t)"
  have c1: "1 \<le> curr" by (simp add: curr_def)
  define found where "found = (case idr_get_free t curr INT_MAX of
                       Some i \<Rightarrow> Some i
                     | None \<Rightarrow> if curr > 1 then idr_get_free t 1 (curr - 1) else None)"
  have res: "(case found of
             None \<Rightarrow> (- ENOSPC, t)
           | Some i \<Rightarrow> (i, t\<lparr>idr_entries := (i, ptr) # idr_entries t, idr_next := i + 1\<rparr>))
         = (i, t')"
    using assms False unfolding idr_alloc_cyclic_def Let_def curr_def found_def
    by (simp only: if_False)
  show ?thesis
  proof (cases found)
    case None
    with res show ?thesis by (auto simp: ENOSPC_def)
  next
    case (Some j)
    have "1 \<le> j \<and> j \<notin> fst ` set (idr_entries t)"
      using Some c1 unfolding found_def
      by (auto split: option.splits if_splits dest!: idr_get_free_Some)
    with res Some show ?thesis by auto
  qed
qed

lemma get_msg_arg_cases:
  assumes "get_msg_arg e ctx n = (r, ctx')"
  shows "(\<exists>err. r = Inl err \<and> ctx' = ctx) \<or>
     (\<exists>err. r = Inl err \<and>
        ctx' = ctx\<lparr>shm_next := Suc (shm_next ctx),
                  klog := klog ctx @ [ShmAlloc (shm_next ctx), ShmFree (shm_next ctx)]\<rparr>) \<or>
     (buffer_acquired e \<and> r = Inr (shm_next ctx, zero_msg_arg n) \<and>
        ctx' = ctx\<lparr>shm_next := Suc (shm_next ctx),
                  klog := klog ctx @ [ShmAlloc (shm_next ctx)]\<rparr>)"
proof (cases "tee_shm_alloc_err e")
  case (Some err)
  with assms show ?thesis
    by (auto simp: get_msg_arg_def tee_shm_alloc_def)
next
  case None
  note alloc = this
  show ?thesis
  proof (cases "tee_shm_get_va_err e")
    case (Some err)
    with assms alloc show ?thesis
      by (auto simp: get_msg_arg_def tee_shm_alloc_def tee_shm_free_def)
  next
    case None
    with assms alloc show ?thesis
      by (cases "tee_shm_get_pa_rc e = 0")
         (auto simp: get_msg_arg_def tee_shm_alloc_def tee_shm_free_def buffer_acquired_def)
  qed
qed

lemma get_msg_arg_acquired:
  "buffer_acquired e \<Longrightarrow>
   get_msg_arg e ctx n =
     (Inr (shm_next ctx, zero_msg_arg n),
      ctx\<lparr>shm_next := Suc (shm_next ctx), klog := klog ctx @ [ShmAlloc (shm_next ctx)]\<rparr>)"
  by (simp add: get_msg_arg_def tee_shm_alloc_def buffer_acquired_def)

lemma alloc_cancel_cases:
  assumes "mipstee_alloc_cancel_idr e ctx cid = (rc, ctx')"
  shows "(rc < 0 \<and> ctx' = ctx) \<or> (rc = 0 \<and> cid = 0 \<and> ctx' = ctx) \<or>
     (0 < rc \<and> cid \<noteq> 0 \<and> rc \<notin> fst ` set (idr_entries (cancel_idr ctx)) \<and>
      idr_for_each (cancel_idr ctx) match_cancel_id cid = 0 \<and>
      ctx' = ctx\<lparr>cancel_idr := (cancel_idr ctx)
                  \<lparr>idr_entries := (rc, cid) # idr_entries (cancel_idr ctx),
                   idr_next := rc + 1\<rparr>\<rparr>)"
proof (cases "cid = 0")
  case True
  with assms show ?thesis by (simp add: mipstee_alloc_cancel_idr_def)
next
  case False
  note nz = this
  show ?thesis
  proof (cases "idr_for_each (cancel_idr ctx) match_cancel_id cid = 0")
    case False
    with assms nz show ?thesis
      by (auto simp: mipstee_alloc_cancel_idr_def Let_def EINVAL_def)
  next
    case True
    obtain i t where a: "idr_alloc_cyclic e (cancel_idr ctx) cid 1 = (i, t)"
      by (cases "idr_alloc_cyclic e (cancel_idr ctx) cid 1")
    from assms nz True a have r: "rc = i" "ctx' = ctx\<lparr>cancel_idr := t\<rparr>"
      by (simp_all add: mipstee_alloc_cancel_idr_def Let_def)
    from idr_alloc_cyclic_cases [OF a] show ?thesis
      using r nz True by auto
  qed
qed

lemma do_call_round_trip:
  "cmd m \<noteq> MIPSTEE_MSG_CMD_CANCEL \<Longrightarrow>
   mipstee_do_call_with_arg e ctx m =
     (if fst (tipc_call_res e m) < 0 then word_of_int (fst (tipc_call_res e m)) else 0,
      snd (tipc_call_res e m),
      ctx\<lparr>klog := klog ctx @ [TipcCall m (fst (tipc_call_res e m))]\<rparr>)"
  by (simp add: mipstee_do_call_with_arg_def tipc_call_def split_beta)

lemma do_call_write:
  "cmd m = MIPSTEE_MSG_CMD_CANCEL \<Longrightarrow>
   mipstee_do_call_with_arg e ctx m =
     (if tipc_write_res e m < 0 then word_of_int (tipc_write_res e m) else 0,
      m,
      ctx\<lparr>klog := klog ctx @ [TipcWrite m (tipc_write_res e m)]\<rparr>)"
  by (simp add: mipstee_do_call_with_arg_def tipc_write_def split_beta Let_def)

lemma to_msg_param_eq:
  "mipstee_to_msg_param e ctx param slots =
     (fst (to_msg_param_res e param slots), snd (to_msg_param_res e param slots),
      ctx\<lparr>klog := klog ctx @ [ToMsgParam (fst (to_msg_param_res e param slots))]\<rparr>)"
  by (simp add: mipstee_to_msg_param_def split_beta)

lemma from_msg_param_eq:
  "mipstee_from_msg_param e ctx param slots =
     (fst (from_msg_param_res e param slots), snd (from_msg_param_res e param slots),
      ctx\<lparr>klog := klog ctx @ [FromMsgParam (fst (from_msg_param_res e param slots))]\<rparr>)"
  by (simp add: mipstee_from_msg_param_def split_beta)

lemma authenticate_client_fst:
  "fst (mipstee_authenticate_client m l) = (if known_login l then 0 else EACCES)"
  by (simp add: mipstee_authenticate_client_def known_login_def Let_def)

lemma authenticate_client_cmd [simp]:
  "cmd (snd (mipstee_authenticate_client m l)) = cmd m"
  by (simp add: mipstee_authenticate_client_def Let_def)

lemma open_session_meta_cmd [simp]: "cmd (open_session_meta m u) = cmd m"
  by (simp add: open_session_meta_def Let_def)

lemma filter_other_keys:
  "i \<notin> fst ` set es \<Longrightarrow> filter (\<lambda>(k, p). k \<noteq> i) es = es"
  by (induction es) auto

lemma remove_after_alloc:
  assumes "mipstee_alloc_cancel_idr e ctx1 cid = (irc, ctx2)" and "0 \<le> irc"
    and "cancel_idr c = cancel_idr ctx2"
  shows "idr_entries (cancel_idr (mipstee_remove_cancel_idr c irc)) = idr_entries (cancel_idr ctx1)"
  using alloc_cancel_cases [OF assms(1)] assms(2,3)
  by (auto simp: mipstee_remove_cancel_idr_def idr_remove_def filter_other_keys)

lemma alloc_cancel_frame:
  assumes "mipstee_alloc_cancel_idr e ctx1 cid = (irc, ctx2)"
  shows "sess_list ctx2 = sess_list ctx1 \<and> klog ctx2 = klog ctx1 \<and> shm_next ctx2 = shm_next ctx1"
  using alloc_cancel_cases [OF assms] by auto

lemma alloc_cancel_fail:
  assumes "mipstee_alloc_cancel_idr e ctx1 cid = (irc, ctx2)" and "irc < 0"
  shows "ctx2 = ctx1"
  using alloc_cancel_cases [OF assms(1)] assms(2) by auto

lemma alloc_cancel_ok_not_matched:
  assumes "mipstee_alloc_cancel_idr e ctx1 cid = (irc, ctx2)" and "0 \<le> irc"
  shows "cid = 0 \<or> idr_for_each (cancel_idr ctx1) match_cancel_id cid = 0"
  using alloc_cancel_cases [OF assms(1)] assms(2) by auto

lemma close_cases_exact:
  assumes "mipstee_close_session e ctx sid = (rc, ctx')"
  shows "cancel_idr ctx' = cancel_idr ctx \<and>
     (case find_session ctx sid of
        None \<Rightarrow> rc = - EINVAL \<and> ctx' = ctx
      | Some sess \<Rightarrow>
          sess_list ctx' = remove1 sess (sess_list ctx) \<and>
          (\<exists>evs. klog ctx' = klog ctx @ evs \<and>
             (evs = [] \<and> shm_next ctx' = shm_next ctx \<or>
              evs = [ShmAlloc (shm_next ctx), ShmFree (shm_next ctx)] \<and>
                shm_next ctx' = Suc (shm_next ctx) \<or>
              buffer_acquired e \<and> rc = 0 \<and> shm_next ctx' = Suc (shm_next ctx) \<and>
              evs = [ShmAlloc (shm_next ctx),
                     TipcCall ((zero_msg_arg 0)\<lparr>cmd := MIPSTEE_MSG_CMD_CLOSE_SESSION, session := sid\<rparr>)
                       (fst (tipc_call_res e
                          ((zero_msg_arg 0)\<lparr>cmd := MIPSTEE_MSG_CMD_CLOSE_SESSION, session := sid\<rparr>))),
                     ShmFree (shm_next ctx)])))"
proof (cases "find_session ctx sid")
  case None
  with assms show ?thesis by (auto simp: mipstee_close_session_def)
next
  case (Some sess)
  define ctx1 where "ctx1 = ctx\<lparr>sess_list := remove1 sess (sess_list ctx)\<rparr>"
  obtain r ctx2 where g: "get_msg_arg e ctx1 0 = (r, ctx2)"
    by (cases "get_msg_arg e ctx1 0")
  have nc: "MIPSTEE_MSG_CMD_CLOSE_SESSION \<noteq> MIPSTEE_MSG_CMD_CANCEL"
    by (simp add: MIPSTEE_MSG_CMD_CLOSE_SESSION_def MIPSTEE_MSG_CMD_CANCEL_def)
  from get_msg_arg_cases [OF g] assms Some g show ?thesis
    unfolding mipstee_close_session_def ctx1_def
    by (auto simp: Let_def do_call_round_trip nc tee_shm_free_def split_beta)
qed

lemma out_label_frame:
  "sess_list (out_label c i h) = sess_list c \<and> klog (out_label c i h) = klog c @ [ShmFree h]
   \<and> shm_next (out_label c i h) = shm_next c"
  by (simp add: out_label_def tee_shm_free_def mipstee_remove_cancel_idr_def)

lemma out_label_zero: "cancel_idr (out_label c 0 h) = cancel_idr c"
  by (simp add: out_label_def tee_shm_free_def mipstee_remove_cancel_idr_def)

lemma out_label_idr:
  "cancel_idr (out_label c i h) = cancel_idr (mipstee_remove_cancel_idr c i)"
  by (simp add: out_label_def tee_shm_free_def)

text \<open>
  The second half of \<open>mipstee_open_session\<close>: either the parameters are converted
  back and the call returns what the message says, or the conversion fails and
  \<open>mipstee_close_session\<close> runs on the context reached so far.
\<close>

lemma exchange_cases:
  assumes run: "open_session_exchange e ce ctx arg param m = (arg', param', ctx')"
    and m: "cmd m \<noteq> MIPSTEE_MSG_CMD_CANCEL"
  obtains
    (returned) trc resp msg7 where
      "tipc_call_res e m = (trc, resp)"
      "msg7 = (if trc < 0 \<and> (word_of_int trc :: u32) \<noteq> 0 then comm_error resp else resp)"
      "from_msg_param_res e param (drop 2 (params msg7)) = (0, param')"
      "arg' = arg\<lparr>arg_session := session msg7, arg_ret := ret msg7,
                    arg_ret_origin := ret_origin msg7\<rparr>"
      "ctx' = ctx\<lparr>sess_list := (if ret msg7 = TEEC_SUCCESS
                                 then \<lparr>session_id = session msg7\<rparr> # sess_list ctx
                                 else sess_list ctx),
                   klog := klog ctx @ [TipcCall m trc, FromMsgParam 0]\<rparr>"
  | (closed) trc resp msg7 frc crc ctx5 where
      "tipc_call_res e m = (trc, resp)"
      "msg7 = (if trc < 0 \<and> (word_of_int trc :: u32) \<noteq> 0 then comm_error resp else resp)"
      "from_msg_param_res e param (drop 2 (params msg7)) = (frc, param')"
      "frc \<noteq> 0"
      "arg' = arg\<lparr>arg_ret := TEEC_ERROR_COMMUNICATION, arg_ret_origin := TEEC_ORIGIN_COMMS\<rparr>"
      "ctx5 = ctx\<lparr>sess_list := (if ret msg7 = TEEC_SUCCESS
                                 then \<lparr>session_id = session msg7\<rparr> # sess_list ctx
                                 else sess_list ctx),
                   klog := klog ctx @ [TipcCall m trc, FromMsgParam frc]\<rparr>"
      "mipstee_close_session ce ctx5 (session msg7) = (crc, ctx')"
proof -
  obtain trc resp where t: "tipc_call_res e m = (trc, resp)"
    by (cases "tipc_call_res e m")
  define r :: u32 where "r = (if trc < 0 then word_of_int trc else 0)"
  define ctx3 where "ctx3 = ctx\<lparr>klog := klog ctx @ [TipcCall m trc]\<rparr>"
  define msg7 where "msg7 = (if r \<noteq> 0 then comm_error resp else resp)"
  define ctx4 where "ctx4 = (if ret msg7 = TEEC_SUCCESS
      then ctx3\<lparr>sess_list := \<lparr>session_id = session msg7\<rparr> # sess_list ctx3\<rparr> else ctx3)"
  obtain frc p' where f: "from_msg_param_res e param (drop 2 (params msg7)) = (frc, p')"
    by (cases "from_msg_param_res e param (drop 2 (params msg7))")
  define ctx5 where "ctx5 = ctx4\<lparr>klog := klog ctx4 @ [FromMsgParam frc]\<rparr>"
  have d: "mipstee_do_call_with_arg e ctx m = (r, resp, ctx3)"
    using m t by (simp add: do_call_round_trip r_def ctx3_def)
  have fm: "mipstee_from_msg_param e ctx4 param (drop 2 (params msg7)) = (frc, p', ctx5)"
    using f by (simp add: from_msg_param_eq ctx5_def)
  have m7: "msg7 = (if trc < 0 \<and> (word_of_int trc :: u32) \<noteq> 0 then comm_error resp else resp)"
    by (simp add: msg7_def r_def)
  have c5: "ctx5 = ctx\<lparr>sess_list := (if ret msg7 = TEEC_SUCCESS
                                 then \<lparr>session_id = session msg7\<rparr> # sess_list ctx
                                 else sess_list ctx),
                   klog := klog ctx @ [TipcCall m trc, FromMsgParam frc]\<rparr>"
    by (simp add: ctx5_def ctx4_def ctx3_def)
  show thesis
  proof (cases "frc = 0")
    case True
    have "(arg\<lparr>arg_session := session msg7, arg_ret := ret msg7,
             arg_ret_origin := ret_origin msg7\<rparr>, p', ctx5) = (arg', param', ctx')"
      using run True
      by (simp only: open_session_exchange_def d Let_def prod.case msg7_def [symmetric]
            ctx4_def [symmetric] fm simp_thms if_False)
    then have "arg' = arg\<lparr>arg_session := session msg7, arg_ret := ret msg7,
                    arg_ret_origin := ret_origin msg7\<rparr>" "p' = param'" "ctx' = ctx5"
      by simp_all
    with t m7 f True c5 show thesis
      by (intro returned [of trc resp msg7]) simp_all
  next
    case False
    obtain crc ctx6 where c: "mipstee_close_session ce ctx5 (session msg7) = (crc, ctx6)"
      by (cases "mipstee_close_session ce ctx5 (session msg7)")
    have "(arg\<lparr>arg_ret := TEEC_ERROR_COMMUNICATION, arg_ret_origin := TEEC_ORIGIN_COMMS\<rparr>,
         p', ctx6) = (arg', param', ctx')"
      using run False
      by (simp only: open_session_exchange_def d Let_def prod.case msg7_def [symmetric]
            ctx4_def [symmetric] fm c simp_thms if_True)
    then have "arg' = arg\<lparr>arg_ret := TEEC_ERROR_COMMUNICATION,
                    arg_ret_origin := TEEC_ORIGIN_COMMS\<rparr>" "p' = param'" "ctx6 = ctx'"
      by simp_all
    with t m7 f False c5 c show thesis
      by (intro closed [of trc resp msg7 frc ctx5 crc]) simp_all
  qed
qed

text \<open>
  \<open>mipstee_open_session\<close>: either the call ends before the round trip, having at most
  allocated and freed its buffer and called the codec once, or it reaches
  \<open>open_session_exchange\<close>. In both cases the entries of the idr are those at the start.
\<close>

lemma open_session_cases:
  assumes run: "mipstee_open_session e ce ctx arg param = (rc, arg', param', ctx')"
  obtains
    (early) evs where
      "arg' = arg" "param' = param" "sess_list ctx' = sess_list ctx"
      "idr_entries (cancel_idr ctx') = idr_entries (cancel_idr ctx)"
      "klog ctx' = klog ctx @ evs"
      "evs = [] \<or> evs = [ShmAlloc (shm_next ctx), ShmFree (shm_next ctx)] \<or>
         (\<exists>x. evs = [ShmAlloc (shm_next ctx), ToMsgParam x, ShmFree (shm_next ctx)])"
      "\<not> known_login (arg_clnt_login arg) \<and> buffer_acquired e \<and>
         0 \<le> fst (mipstee_alloc_cancel_idr e ctx (arg_cancel_id arg)) \<longrightarrow> rc = EACCES"
  | (called) m c2 c6 where
      "buffer_acquired e" "known_login (arg_clnt_login arg)"
      "arg_cancel_id arg = 0 \<or>
         idr_for_each (cancel_idr ctx) match_cancel_id (arg_cancel_id arg) = 0"
      "cmd m = MIPSTEE_MSG_CMD_OPEN_SESSION"
      "sess_list c2 = sess_list ctx"
      "klog c2 = klog ctx @ [ShmAlloc (shm_next ctx), ToMsgParam 0]"
      "shm_next c2 = Suc (shm_next ctx)"
      "open_session_exchange e ce c2 arg param m = (arg', param', c6)"
      "rc = 0" "sess_list ctx' = sess_list c6"
      "klog ctx' = klog c6 @ [ShmFree (shm_next ctx)]"
      "cancel_idr c6 = cancel_idr c2 \<longrightarrow>
         idr_entries (cancel_idr ctx') = idr_entries (cancel_idr ctx)"
proof -
  define h where "h = shm_next ctx"
  define n where "n = arg_num_params arg + 2"
  obtain r ctx1 where g: "get_msg_arg e ctx n = (r, ctx1)"
    by (cases "get_msg_arg e ctx n")
  from get_msg_arg_cases [OF g] show thesis
  proof (elim disjE exE conjE)
    fix err assume "r = Inl err" "ctx1 = ctx"
    with run g have "arg' = arg" "param' = param" "ctx' = ctx" "\<not> buffer_acquired e"
      by (auto simp: mipstee_open_session_def n_def get_msg_arg_acquired)
    then show thesis
      by (intro early [of "[]"]) simp_all
  next
    fix err assume "r = Inl err"
      "ctx1 = ctx\<lparr>shm_next := Suc (shm_next ctx),
                  klog := klog ctx @ [ShmAlloc (shm_next ctx), ShmFree (shm_next ctx)]\<rparr>"
    with run g have "arg' = arg" "param' = param"
      "ctx' = ctx\<lparr>shm_next := Suc (shm_next ctx),
                  klog := klog ctx @ [ShmAlloc (shm_next ctx), ShmFree (shm_next ctx)]\<rparr>"
      "\<not> buffer_acquired e"
      by (auto simp: mipstee_open_session_def n_def get_msg_arg_acquired)
    then show thesis
      by (intro early [of "[ShmAlloc (shm_next ctx), ShmFree (shm_next ctx)]"]) simp_all
  next
    assume acq: "buffer_acquired e"
      and r: "r = Inr (shm_next ctx, zero_msg_arg n)"
      and c1: "ctx1 = ctx\<lparr>shm_next := Suc (shm_next ctx),
                          klog := klog ctx @ [ShmAlloc (shm_next ctx)]\<rparr>"
    have g': "get_msg_arg e ctx (arg_num_params arg + 2) = (Inr (h, zero_msg_arg n), ctx1)"
      using g r by (simp add: n_def h_def)
    obtain irc ctx2 where a: "mipstee_alloc_cancel_idr e ctx1 (arg_cancel_id arg) = (irc, ctx2)"
      by (cases "mipstee_alloc_cancel_idr e ctx1 (arg_cancel_id arg)")
    have a0: "fst (mipstee_alloc_cancel_idr e ctx (arg_cancel_id arg)) = irc"
      using a c1 by (auto simp: mipstee_alloc_cancel_idr_def Let_def split_beta split: if_splits)
    note fr = alloc_cancel_frame [OF a]
    have c2: "sess_list ctx2 = sess_list ctx" "klog ctx2 = klog ctx @ [ShmAlloc h]"
      "shm_next ctx2 = Suc h"
      using fr c1 by (simp_all add: h_def)
    show thesis
    proof (cases "irc < 0")
      case True
      have "(irc, arg, param, out_label ctx2 0 h) = (rc, arg', param', ctx')"
        using run True
        by (simp only: mipstee_open_session_def g' prod.case sum.case Let_def a if_True)
      then have res: "rc = irc" "arg' = arg" "param' = param" "ctx' = out_label ctx2 0 h"
        by simp_all
      have "cancel_idr ctx2 = cancel_idr ctx"
        using alloc_cancel_fail [OF a True] c1 by simp
      with res c2 True a0 show thesis
        by (intro early [of "[ShmAlloc (shm_next ctx), ShmFree (shm_next ctx)]"])
           (simp_all add: out_label_frame out_label_zero h_def)
    next
      case False
      then have pos: "0 \<le> irc" by simp
      note nm = alloc_cancel_ok_not_matched [OF a pos]
      have nm': "arg_cancel_id arg = 0 \<or>
           idr_for_each (cancel_idr ctx) match_cancel_id (arg_cancel_id arg) = 0"
        using nm c1 by simp
      have rest: "\<And>c. cancel_idr c = cancel_idr ctx2 \<Longrightarrow>
          idr_entries (cancel_idr (out_label c irc h)) = idr_entries (cancel_idr ctx)"
        using remove_after_alloc [OF a pos] c1 by (simp add: out_label_idr)
      define msg3 where "msg3 = open_session_meta
          ((zero_msg_arg n)\<lparr>cmd := MIPSTEE_MSG_CMD_OPEN_SESSION, cancel_id := word_of_int irc\<rparr>)
          (arg_uuid arg)"
      obtain arc msg4 where
        au: "mipstee_authenticate_client msg3 (arg_clnt_login arg) = (arc, msg4)"
        by (cases "mipstee_authenticate_client msg3 (arg_clnt_login arg)")
      have arc: "arc = (if known_login (arg_clnt_login arg) then 0 else EACCES)"
        using authenticate_client_fst [of msg3 "arg_clnt_login arg"] au by simp
      have cmd4: "cmd msg4 = MIPSTEE_MSG_CMD_OPEN_SESSION"
      proof -
        have "cmd msg4 = cmd (snd (mipstee_authenticate_client msg3 (arg_clnt_login arg)))"
          by (simp add: au)
        also have "\<dots> = cmd msg3"
          by (rule authenticate_client_cmd)
        also have "\<dots> = MIPSTEE_MSG_CMD_OPEN_SESSION"
          by (simp add: msg3_def)
        finally show ?thesis .
      qed
      show thesis
      proof (cases "known_login (arg_clnt_login arg)")
        case False
        then have e13: "arc = EACCES" "arc \<noteq> 0" by (simp_all add: arc EACCES_def)
        then have "(arc, arg, param, out_label ctx2 irc h) = (rc, arg', param', ctx')"
          using run \<open>\<not> irc < 0\<close>
          by (simp only: mipstee_open_session_def g' prod.case sum.case Let_def a
                msg3_def [symmetric] au if_False if_True simp_thms)
        then have res: "rc = arc" "arg' = arg" "param' = param" "ctx' = out_label ctx2 irc h"
          by simp_all
        with c2 rest [of ctx2] e13 show thesis
          by (intro early [of "[ShmAlloc (shm_next ctx), ShmFree (shm_next ctx)]"])
             (simp_all add: out_label_frame h_def)
      next
        case True
        then have arc0: "arc = 0" by (simp add: arc)
        obtain x slots where tm: "to_msg_param_res e param (drop 2 (params msg4)) = (x, slots)"
          by (cases "to_msg_param_res e param (drop 2 (params msg4))")
        define ctx2a where "ctx2a = ctx2\<lparr>klog := klog ctx2 @ [ToMsgParam x]\<rparr>"
        have tmm: "mipstee_to_msg_param e ctx2 param (drop 2 (params msg4)) = (x, slots, ctx2a)"
          using tm by (simp add: to_msg_param_eq ctx2a_def)
        have c2a: "sess_list ctx2a = sess_list ctx"
          "klog ctx2a = klog ctx @ [ShmAlloc h, ToMsgParam x]"
          "shm_next ctx2a = Suc h" "cancel_idr ctx2a = cancel_idr ctx2"
          using c2 by (simp_all add: ctx2a_def)
        show thesis
        proof (cases "x \<noteq> 0 \<or> kzalloc_fails e")
          case True
          then have "\<exists>rv. (rv, arg, param, out_label ctx2a irc h) = (rc, arg', param', ctx')"
            using run \<open>\<not> irc < 0\<close> arc0
            apply (simp only: mipstee_open_session_def g' prod.case sum.case Let_def a
                msg3_def [symmetric] au tmm if_False if_True simp_thms)
            apply (auto split: if_splits)
            done
          then have res: "arg' = arg" "param' = param" "ctx' = out_label ctx2a irc h"
            by auto
          with c2a rest [of ctx2a] \<open>known_login (arg_clnt_login arg)\<close> show thesis
            by (intro early [of "[ShmAlloc (shm_next ctx), ToMsgParam x, ShmFree (shm_next ctx)]"])
               (simp_all add: out_label_frame h_def)
        next
          case False
          then have x0: "x = 0" and kz: "\<not> kzalloc_fails e" by simp_all
          define msg5 where "msg5 = msg4\<lparr>params := take 2 (params msg4) @ slots\<rparr>"
          obtain a1 p1 ctx6 where
            ex: "open_session_exchange e ce ctx2a arg param msg5 = (a1, p1, ctx6)"
            by (cases "open_session_exchange e ce ctx2a arg param msg5") 
          have "(0, a1, p1, out_label ctx6 irc h) = (rc, arg', param', ctx')"
            using run \<open>\<not> irc < 0\<close> arc0 x0 kz
            by (simp only: mipstee_open_session_def g' prod.case sum.case Let_def a
                msg3_def [symmetric] au tmm if_False if_True simp_thms
                msg5_def [symmetric] ex)
          then have res: "rc = 0" "a1 = arg'" "p1 = param'" "ctx' = out_label ctx6 irc h"
            by simp_all
          have cm5: "cmd msg5 = MIPSTEE_MSG_CMD_OPEN_SESSION"
            using cmd4 by (simp add: msg5_def)
          have i6: "cancel_idr ctx6 = cancel_idr ctx2a \<longrightarrow>
              idr_entries (cancel_idr ctx') = idr_entries (cancel_idr ctx)"
            using rest [of ctx6] res c2a by simp
          from acq True nm' cm5 c2a x0 ex res i6 show thesis
            by (intro called [of msg5 ctx2a ctx6]) (simp_all add: out_label_frame h_def)
        qed
      qed
    qed
  qed
qed

text \<open>The same with the two parts put together and the inner close-session resolved.\<close>

lemma open_session_outcome:
  assumes run: "mipstee_open_session e ce ctx arg param = (rc, arg', param', ctx')"
  obtains
    (early) evs where
      "arg' = arg" "param' = param" "sess_list ctx' = sess_list ctx"
      "idr_entries (cancel_idr ctx') = idr_entries (cancel_idr ctx)"
      "klog ctx' = klog ctx @ evs"
      "evs = [] \<or> evs = [ShmAlloc (shm_next ctx), ShmFree (shm_next ctx)] \<or>
         (\<exists>x. evs = [ShmAlloc (shm_next ctx), ToMsgParam x, ShmFree (shm_next ctx)])"
      "\<not> known_login (arg_clnt_login arg) \<and> buffer_acquired e \<and>
         0 \<le> fst (mipstee_alloc_cancel_idr e ctx (arg_cancel_id arg)) \<longrightarrow> rc = EACCES"
  | (returned) m trc resp msg7 where
      "buffer_acquired e" "known_login (arg_clnt_login arg)"
      "arg_cancel_id arg = 0 \<or>
         idr_for_each (cancel_idr ctx) match_cancel_id (arg_cancel_id arg) = 0"
      "cmd m = MIPSTEE_MSG_CMD_OPEN_SESSION"
      "tipc_call_res e m = (trc, resp)"
      "msg7 = (if trc < 0 \<and> (word_of_int trc :: u32) \<noteq> 0 then comm_error resp else resp)"
      "from_msg_param_res e param (drop 2 (params msg7)) = (0, param')"
      "rc = 0"
      "arg' = arg\<lparr>arg_session := session msg7, arg_ret := ret msg7,
                    arg_ret_origin := ret_origin msg7\<rparr>"
      "sess_list ctx' = (if ret msg7 = TEEC_SUCCESS
                         then \<lparr>session_id = session msg7\<rparr> # sess_list ctx
                         else sess_list ctx)"
      "idr_entries (cancel_idr ctx') = idr_entries (cancel_idr ctx)"
      "klog ctx' = klog ctx @ [ShmAlloc (shm_next ctx), ToMsgParam 0, TipcCall m trc,
                               FromMsgParam 0, ShmFree (shm_next ctx)]"
  | (closed) m trc resp msg7 frc l' cevs where
      "buffer_acquired e" "known_login (arg_clnt_login arg)"
      "arg_cancel_id arg = 0 \<or>
         idr_for_each (cancel_idr ctx) match_cancel_id (arg_cancel_id arg) = 0"
      "cmd m = MIPSTEE_MSG_CMD_OPEN_SESSION"
      "tipc_call_res e m = (trc, resp)"
      "msg7 = (if trc < 0 \<and> (word_of_int trc :: u32) \<noteq> 0 then comm_error resp else resp)"
      "from_msg_param_res e param (drop 2 (params msg7)) = (frc, param')"
      "frc \<noteq> 0" "rc = 0"
      "arg' = arg\<lparr>arg_ret := TEEC_ERROR_COMMUNICATION, arg_ret_origin := TEEC_ORIGIN_COMMS\<rparr>"
      "l' = (if ret msg7 = TEEC_SUCCESS
             then \<lparr>session_id = session msg7\<rparr> # sess_list ctx else sess_list ctx)"
      "sess_list ctx' = (case find_session_from l' (session msg7) of
                           None \<Rightarrow> l' | Some sess \<Rightarrow> remove1 sess l')"
      "idr_entries (cancel_idr ctx') = idr_entries (cancel_idr ctx)"
      "klog ctx' = klog ctx @ [ShmAlloc (shm_next ctx), ToMsgParam 0, TipcCall m trc,
                               FromMsgParam frc] @ cevs @ [ShmFree (shm_next ctx)]"
      "cevs = [] \<or>
       cevs = [ShmAlloc (Suc (shm_next ctx)), ShmFree (Suc (shm_next ctx))] \<or>
       find_session_from l' (session msg7) \<noteq> None \<and> buffer_acquired ce \<and>
       cevs = [ShmAlloc (Suc (shm_next ctx)),
               TipcCall ((zero_msg_arg 0)\<lparr>cmd := MIPSTEE_MSG_CMD_CLOSE_SESSION,
                                          session := session msg7\<rparr>)
                 (fst (tipc_call_res ce
                    ((zero_msg_arg 0)\<lparr>cmd := MIPSTEE_MSG_CMD_CLOSE_SESSION,
                                      session := session msg7\<rparr>))),
               ShmFree (Suc (shm_next ctx))]"
      "find_session_from l' (session msg7) \<noteq> None \<and> buffer_acquired ce \<longrightarrow>
       cevs = [ShmAlloc (Suc (shm_next ctx)),
               TipcCall ((zero_msg_arg 0)\<lparr>cmd := MIPSTEE_MSG_CMD_CLOSE_SESSION,
                                          session := session msg7\<rparr>)
                 (fst (tipc_call_res ce
                    ((zero_msg_arg 0)\<lparr>cmd := MIPSTEE_MSG_CMD_CLOSE_SESSION,
                                      session := session msg7\<rparr>))),
               ShmFree (Suc (shm_next ctx))]"
  using run
proof (cases rule: open_session_cases)
  case (early evs)
  then show thesis by (intro that(1) [of evs])
next
  case (called m c2 c6)
  have nc: "cmd m \<noteq> MIPSTEE_MSG_CMD_CANCEL"
    using called(4) by (simp add: MIPSTEE_MSG_CMD_OPEN_SESSION_def MIPSTEE_MSG_CMD_CANCEL_def)
  from called(8) nc show thesis
  proof (cases rule: exchange_cases)
    case (returned trc resp msg7)
    with called show thesis
      by (intro that(2) [of m trc resp msg7]) simp_all
  next
    case (closed trc resp msg7 frc crc ctx5)
    define l' where "l' = (if ret msg7 = TEEC_SUCCESS
             then \<lparr>session_id = session msg7\<rparr> # sess_list ctx else sess_list ctx)"
    have c5: "sess_list ctx5 = l'" "cancel_idr ctx5 = cancel_idr c2"
      "shm_next ctx5 = Suc (shm_next ctx)"
      "klog ctx5 = klog ctx @ [ShmAlloc (shm_next ctx), ToMsgParam 0, TipcCall m trc,
                               FromMsgParam frc]"
      using closed(6) called by (simp_all add: l'_def)
    note cc = close_cases_exact [OF closed(7)]
    have i: "idr_entries (cancel_idr ctx') = idr_entries (cancel_idr ctx)"
      using cc c5 called(12) by simp
    show thesis
    proof (cases "find_session_from l' (session msg7)")
      case None
      with cc c5 have "c6 = ctx5" by (simp add: find_session_def)
      with None c5 called closed i l'_def show thesis
        by (intro that(3) [of m trc resp msg7 frc l' "[]"]) simp_all
    next
      case (Some sess)
      with cc c5 obtain cevs where
        s6: "sess_list c6 = remove1 sess l'" and k6: "klog c6 = klog ctx5 @ cevs" and
        sh: "cevs = [] \<or>
             cevs = [ShmAlloc (Suc (shm_next ctx)), ShmFree (Suc (shm_next ctx))] \<or>
             buffer_acquired ce \<and>
             cevs = [ShmAlloc (Suc (shm_next ctx)),
               TipcCall ((zero_msg_arg 0)\<lparr>cmd := MIPSTEE_MSG_CMD_CLOSE_SESSION,
                                          session := session msg7\<rparr>)
                 (fst (tipc_call_res ce
                    ((zero_msg_arg 0)\<lparr>cmd := MIPSTEE_MSG_CMD_CLOSE_SESSION,
                                      session := session msg7\<rparr>))),
               ShmFree (Suc (shm_next ctx))]"
        by (auto simp: find_session_def)
      have acq: "buffer_acquired ce \<Longrightarrow>
             cevs = [ShmAlloc (Suc (shm_next ctx)),
               TipcCall ((zero_msg_arg 0)\<lparr>cmd := MIPSTEE_MSG_CMD_CLOSE_SESSION,
                                          session := session msg7\<rparr>)
                 (fst (tipc_call_res ce
                    ((zero_msg_arg 0)\<lparr>cmd := MIPSTEE_MSG_CMD_CLOSE_SESSION,
                                      session := session msg7\<rparr>))),
               ShmFree (Suc (shm_next ctx))]"
        using closed(7) Some c5 k6
        by (auto simp: mipstee_close_session_def find_session_def get_msg_arg_acquired
              Let_def do_call_round_trip tee_shm_free_def
              MIPSTEE_MSG_CMD_CLOSE_SESSION_def MIPSTEE_MSG_CMD_CANCEL_def)
      from Some s6 k6 sh acq c5 called closed i l'_def show thesis
        by (intro that(3) [of m trc resp msg7 frc l' cevs]) simp_all
    qed
  qed
qed

lemma get_msg_arg_status:
  "fst (get_msg_arg e (ctx\<lparr>sess_list := l\<rparr>) n) = fst (get_msg_arg e ctx n)"
  by (simp add: get_msg_arg_def tee_shm_alloc_def tee_shm_free_def split: option.splits)

lemma find_cancel_live:
  assumes "idr_wf (cancel_idr ctx)" and "cancel_live ctx cid"
  shows "mipstee_find_cancel_idr ctx cid \<noteq> 0" and "cid \<noteq> 0"
proof -
  show nz: "cid \<noteq> 0"
    using assms by (auto simp: idr_wf_def cancel_live_def list_all_iff)
  show "mipstee_find_cancel_idr ctx cid \<noteq> 0"
    using assms nz idr_for_each_match_live [OF assms(1), of cid]
    by (simp add: mipstee_find_cancel_idr_def cancel_live_def)
qed


lemma invoke_cases:
  assumes run: "mipstee_invoke_func e ctx arg param = (rc, arg', param', ctx')"
  shows "sess_list ctx' = sess_list ctx \<and>
     idr_entries (cancel_idr ctx') = idr_entries (cancel_idr ctx) \<and>
     (\<exists>evs. klog ctx' = klog ctx @ evs \<and>
        (evs = [] \<or> evs = [ShmAlloc (shm_next ctx), ShmFree (shm_next ctx)] \<or>
         (\<exists>x. evs = [ShmAlloc (shm_next ctx), ToMsgParam x, ShmFree (shm_next ctx)]) \<or>
         (\<exists>m trc frc. evs = [ShmAlloc (shm_next ctx), ToMsgParam 0, TipcCall m trc,
                               FromMsgParam frc, ShmFree (shm_next ctx)])))"
proof (cases "find_session ctx (inv_session arg)")
  case None
  with run show ?thesis by (auto simp: mipstee_invoke_func_def)
next
  case (Some sess)
  define h where "h = shm_next ctx"
  obtain r ctx1 where g: "get_msg_arg e ctx (inv_num_params arg) = (r, ctx1)"
    by (cases "get_msg_arg e ctx (inv_num_params arg)")
  from get_msg_arg_cases [OF g] show ?thesis
  proof (elim disjE exE conjE)
    fix err assume "r = Inl err" "ctx1 = ctx"
    with run g Some show ?thesis by (auto simp: mipstee_invoke_func_def)
  next
    fix err assume "r = Inl err"
      "ctx1 = ctx\<lparr>shm_next := Suc (shm_next ctx),
                  klog := klog ctx @ [ShmAlloc (shm_next ctx), ShmFree (shm_next ctx)]\<rparr>"
    with run g Some show ?thesis by (auto simp: mipstee_invoke_func_def)
  next
    assume r: "r = Inr (shm_next ctx, zero_msg_arg (inv_num_params arg))"
      and c1: "ctx1 = ctx\<lparr>shm_next := Suc (shm_next ctx),
                          klog := klog ctx @ [ShmAlloc (shm_next ctx)]\<rparr>"
    have g': "get_msg_arg e ctx (inv_num_params arg) =
        (Inr (h, zero_msg_arg (inv_num_params arg)), ctx1)"
      using g r by (simp add: h_def)
    obtain irc ctx2 where a: "mipstee_alloc_cancel_idr e ctx1 (inv_cancel_id arg) = (irc, ctx2)"
      by (cases "mipstee_alloc_cancel_idr e ctx1 (inv_cancel_id arg)")
    note fr = alloc_cancel_frame [OF a]
    have c2: "sess_list ctx2 = sess_list ctx" "klog ctx2 = klog ctx @ [ShmAlloc h]"
      "shm_next ctx2 = Suc h"
      using fr c1 by (simp_all add: h_def)
    show ?thesis
    proof (cases "irc < 0")
      case True
      have "(irc, arg, param, out_label ctx2 0 h) = (rc, arg', param', ctx')"
        using run True
        by (simp only: mipstee_invoke_func_def Some option.case g' prod.case sum.case
              Let_def a if_True)
      moreover have "cancel_idr ctx2 = cancel_idr ctx"
        using alloc_cancel_fail [OF a True] c1 by simp
      ultimately show ?thesis
        using c2 by (auto simp: out_label_frame out_label_zero h_def)
    next
      case False
      then have pos: "0 \<le> irc" by simp
      have rest: "\<And>c. cancel_idr c = cancel_idr ctx2 \<Longrightarrow>
          idr_entries (cancel_idr (out_label c irc h)) = idr_entries (cancel_idr ctx)"
        using remove_after_alloc [OF a pos] c1 by (simp add: out_label_idr)
      define msg2 where "msg2 = (zero_msg_arg (inv_num_params arg))
          \<lparr>cmd := MIPSTEE_MSG_CMD_INVOKE_COMMAND, func := inv_func arg,
           session := inv_session arg, cancel_id := word_of_int irc\<rparr>"
      obtain x slots where tm: "to_msg_param_res e param (params msg2) = (x, slots)"
        by (cases "to_msg_param_res e param (params msg2)")
      define ctx2a where "ctx2a = ctx2\<lparr>klog := klog ctx2 @ [ToMsgParam x]\<rparr>"
      have tmm: "mipstee_to_msg_param e ctx2 param (params msg2) = (x, slots, ctx2a)"
        using tm by (simp add: to_msg_param_eq ctx2a_def)
      have c2a: "sess_list ctx2a = sess_list ctx"
        "klog ctx2a = klog ctx @ [ShmAlloc h, ToMsgParam x]"
        "shm_next ctx2a = Suc h" "cancel_idr ctx2a = cancel_idr ctx2"
        using c2 by (simp_all add: ctx2a_def)
      show ?thesis
      proof (cases "x = 0")
        case False
        have "(x, arg, param, out_label ctx2a irc h) = (rc, arg', param', ctx')"
          using run \<open>\<not> irc < 0\<close> False
          by (simp only: mipstee_invoke_func_def Some option.case g' prod.case sum.case
                Let_def a msg2_def [symmetric] tmm if_False if_True simp_thms)
        then show ?thesis
          using c2a rest [of ctx2a] by (auto simp: out_label_frame h_def)
      next
        case True
        define msg3 where "msg3 = msg2\<lparr>params := slots\<rparr>"
        have nc: "cmd msg3 \<noteq> MIPSTEE_MSG_CMD_CANCEL"
          by (simp add: msg3_def msg2_def MIPSTEE_MSG_CMD_INVOKE_COMMAND_def
                MIPSTEE_MSG_CMD_CANCEL_def)
        obtain r4 msg4 ctx3 where d: "mipstee_do_call_with_arg e ctx2a msg3 = (r4, msg4, ctx3)"
          by (cases "mipstee_do_call_with_arg e ctx2a msg3") 
        have c3: "ctx3 = ctx2a\<lparr>klog := klog ctx2a @ [TipcCall msg3 (fst (tipc_call_res e msg3))]\<rparr>"
          using d nc by (simp add: do_call_round_trip)
        define msg5 where "msg5 = (if r4 \<noteq> 0 then comm_error msg4 else msg4)"
        obtain frc p' ctx4 where
          fm: "mipstee_from_msg_param e ctx3 param (params msg5) = (frc, p', ctx4)"
          by (cases "mipstee_from_msg_param e ctx3 param (params msg5)") 
        have c4: "ctx4 = ctx3\<lparr>klog := klog ctx3 @ [FromMsgParam frc]\<rparr>"
          using fm by (auto simp: from_msg_param_eq)
        have "\<exists>a1. (x, a1, p', out_label ctx4 irc h) = (rc, arg', param', ctx')"
          using run \<open>\<not> irc < 0\<close> True
          apply (simp only: mipstee_invoke_func_def Some option.case g' prod.case sum.case
                Let_def a msg2_def [symmetric] tmm msg3_def [symmetric] d
                msg5_def [symmetric] fm if_False if_True simp_thms)
          apply auto
          done
        then show ?thesis
          using c2a c3 c4 True rest [of ctx4] by (auto simp: out_label_frame h_def)
      qed
    qed
  qed
qed

lemma cancel_cases:
  assumes run: "mipstee_cancel_req e ctx cid sid = (rc, ctx')"
  shows "sess_list ctx' = sess_list ctx \<and> cancel_idr ctx' = cancel_idr ctx \<and>
     (\<exists>evs. klog ctx' = klog ctx @ evs \<and>
        (evs = [] \<or> evs = [ShmAlloc (shm_next ctx), ShmFree (shm_next ctx)] \<or>
         (\<exists>m wrc. evs = [ShmAlloc (shm_next ctx), TipcWrite m wrc, ShmFree (shm_next ctx)])))"
proof -
  obtain r ctx1 where g: "get_msg_arg e ctx 0 = (r, ctx1)"
    by (cases "get_msg_arg e ctx 0")
  from get_msg_arg_cases [OF g] run g show ?thesis
    by (auto simp: mipstee_cancel_req_def Let_def do_call_write tee_shm_free_def
          split: if_splits)
qed

lemma balanced_shapes:
  "buffers_balanced []"
  "buffers_balanced [ShmAlloc h, ShmFree h]"
  "buffers_balanced [ShmAlloc h, ToMsgParam x, ShmFree h]"
  "buffers_balanced [ShmAlloc h, TipcCall m trc, ShmFree h]"
  "buffers_balanced [ShmAlloc h, TipcWrite m trc, ShmFree h]"
  "buffers_balanced [ShmAlloc h, ToMsgParam x, TipcCall m trc, FromMsgParam frc, ShmFree h]"
  "buffers_balanced [ShmAlloc h, ToMsgParam x, TipcCall m trc, FromMsgParam frc,
     ShmAlloc (Suc h), ShmFree (Suc h), ShmFree h]"
  "buffers_balanced [ShmAlloc h, ToMsgParam x, TipcCall m trc, FromMsgParam frc,
     ShmAlloc (Suc h), TipcCall m' trc', ShmFree (Suc h), ShmFree h]"
  by (simp_all add: buffers_balanced_def)

lemma open_balanced:
  "buffers_balanced (new_events ctx (snd (snd (snd (mipstee_open_session e ce ctx arg param)))))"
proof -
  obtain rc arg' param' ctx' where
    r: "mipstee_open_session e ce ctx arg param = (rc, arg', param', ctx')"
    by (cases "mipstee_open_session e ce ctx arg param") 
  from r have "buffers_balanced (new_events ctx ctx')"
  proof (cases rule: open_session_outcome)
    case (early evs)
    then show ?thesis by (auto simp: new_events_def balanced_shapes)
  next
    case (returned m trc resp msg7)
    then show ?thesis by (simp add: new_events_def balanced_shapes)
  next
    case (closed m trc resp msg7 frc l' cevs)
    from closed(15) closed(14) show ?thesis
      by (auto simp: new_events_def balanced_shapes)
  qed
  then show ?thesis by (simp add: r)
qed

lemma close_balanced:
  "buffers_balanced (new_events ctx (snd (mipstee_close_session e ctx sid)))"
proof -
  obtain rc ctx' where r: "mipstee_close_session e ctx sid = (rc, ctx')"
    by (cases "mipstee_close_session e ctx sid")
  from close_cases_exact [OF r] have "buffers_balanced (new_events ctx ctx')"
    by (auto simp: new_events_def balanced_shapes split: option.splits)
  then show ?thesis by (simp add: r)
qed

lemma invoke_balanced:
  "buffers_balanced (new_events ctx (snd (snd (snd (mipstee_invoke_func e ctx arg param)))))"
proof -
  obtain rc arg' param' ctx' where
    r: "mipstee_invoke_func e ctx arg param = (rc, arg', param', ctx')"
    by (cases "mipstee_invoke_func e ctx arg param") 
  from invoke_cases [OF r] have "buffers_balanced (new_events ctx ctx')"
    by (auto simp: new_events_def balanced_shapes)
  then show ?thesis by (simp add: r)
qed

lemma cancel_balanced:
  "buffers_balanced (new_events ctx (snd (mipstee_cancel_req e ctx cid sid)))"
proof -
  obtain rc ctx' where r: "mipstee_cancel_req e ctx cid sid = (rc, ctx')"
    by (cases "mipstee_cancel_req e ctx cid sid")
  from cancel_cases [OF r] have "buffers_balanced (new_events ctx ctx')"
    by (auto simp: new_events_def balanced_shapes)
  then show ?thesis by (simp add: r)
qed

lemma word_of_int_neg_nonzero:
  assumes "INT_MIN \<le> i" and "i < 0"
  shows "(word_of_int i :: u32) \<noteq> 0"
proof
  assume "(word_of_int i :: u32) = 0"
  then have "(2 :: int) ^ 32 dvd i"
    by (simp add: word_of_int_eq_0_iff)
  then have "(2 :: int) ^ 32 dvd - i" by simp
  moreover have "0 < - i" "- i < 2 ^ 32"
    using assms by (simp_all add: INT_MIN_def)
  ultimately show False
    using zdvd_not_zless by blast
qed

lemma not_matched_not_live:
  assumes "idr_wf t" and "cid = 0 \<or> idr_for_each t match_cancel_id cid = 0"
  shows "cid \<notin> snd ` set (idr_entries t)"
proof (cases "cid = 0")
  case True
  with assms(1) show ?thesis by (auto simp: idr_wf_def list_all_iff)
next
  case False
  with assms(2) idr_for_each_match_live [OF assms(1), of cid] show ?thesis by simp
qed

lemma mset_remove1_subset: "mset (remove1 x l) \<subseteq># mset l"
  by (induction l) (auto intro: subset_mset.order_trans)

lemma find_session_from_Some:
  "find_session_from l sid = Some sess \<Longrightarrow> session_id sess = sid \<and> sess \<in> set l"
  by (induction l) (auto split: if_splits)

lemma find_session_from_None:
  "find_session_from l sid = None \<longleftrightarrow> filter (\<lambda>s. session_id s = sid) l = []"
  by (induction l) auto

lemma filter_remove1_length:
  "x \<in> set l \<Longrightarrow> P x \<Longrightarrow> Suc (length (filter P (remove1 x l))) = length (filter P l)"
  by (induction l) auto

lemma find_session_absent: "find_session ctx sid = None \<longleftrightarrow> sess_count ctx sid = 0"
  by (simp add: find_session_def sess_count_def find_session_from_None)

lemma distinct_map_remove1:
  "distinct (map f l) \<Longrightarrow> distinct (map f (remove1 x l))"
proof (induction l)
  case Nil
  then show ?case by simp
next
  case (Cons a l)
  have "set (remove1 x l) \<subseteq> set l" by (rule set_remove1_subset)
  with Cons show ?case by auto
qed

lemma distinct_ids_count:
  "distinct (map session_id l) \<Longrightarrow> length (filter (\<lambda>s. session_id s = sid) l) \<le> 1"
proof (induction l)
  case Nil
  then show ?case by simp
next
  case (Cons a l)
  show ?case
  proof (cases "session_id a = sid")
    case True
    with Cons.prems have "sid \<notin> session_id ` set l" by simp
    then have "\<forall>x\<in>set l. session_id x \<noteq> sid" by blast
    then have "filter (\<lambda>s. session_id s = sid) l = []"
      by (simp add: filter_empty_conv)
    with True show ?thesis by simp
  next
    case False
    with Cons show ?thesis by simp
  qed
qed

lemma find_session_from_notin:
  "find_session_from l sid = None \<Longrightarrow> sid \<notin> session_id ` set l"
  by (induction l) (auto split: if_splits)

subsection \<open>The open-session call up to its round trip\<close>

lemma open_answer_session [simp]:
  "session (open_answer e m) = session (snd (tipc_call_res e m))"
  by (simp add: open_answer_def comm_error_def)

lemma open_answer_eq:
  "tipc_call_res e m = (trc, resp) \<Longrightarrow>
   (if trc < 0 \<and> (word_of_int trc :: u32) \<noteq> 0 then comm_error resp else resp) = open_answer e m"
  by (simp add: open_answer_def)

text \<open>
  \<open>open_session_in_flight\<close> and \<open>mipstee_open_session\<close> side by side: the call either
  ends before the round trip, or the second is \<open>open_session_exchange\<close> and the label
  \<open>out\<close> applied to what the first returns.
\<close>

lemma open_session_stages:
  obtains
    (ended) rc ctx' evs where
      "open_session_in_flight e ctx arg param = None"
      "mipstee_open_session e ce ctx arg param = (rc, arg, param, ctx')"
      "sess_list ctx' = sess_list ctx"
      "klog ctx' = klog ctx @ evs" "filter is_transport evs = []"
  | (flight) c m i h ctx1 c2 where
      "open_session_in_flight e ctx arg param = Some (c, m, i, h)"
      "mipstee_open_session e ce ctx arg param =
         (case open_session_exchange e ce c arg param m of
            (arg1, param', ctx6) \<Rightarrow> (0, arg1, param', out_label ctx6 i h))"
      "buffer_acquired e" "cmd m = MIPSTEE_MSG_CMD_OPEN_SESSION"
      "h = shm_next ctx" "sess_list c = sess_list ctx"
      "klog c = klog ctx @ [ShmAlloc (shm_next ctx), ToMsgParam 0]"
      "shm_next c = Suc (shm_next ctx)"
      "cancel_idr ctx1 = cancel_idr ctx"
      "mipstee_alloc_cancel_idr e ctx1 (arg_cancel_id arg) = (i, c2)" "0 \<le> i"
      "cancel_idr c = cancel_idr c2"
proof -
  define h where "h = shm_next ctx"
  define n where "n = arg_num_params arg + 2"
  obtain r ctx1 where g: "get_msg_arg e ctx n = (r, ctx1)"
    by (cases "get_msg_arg e ctx n")
  from get_msg_arg_cases [OF g] show thesis
  proof (elim disjE exE conjE)
    fix err assume r: "r = Inl err" and c: "ctx1 = ctx"
    have g': "get_msg_arg e ctx (arg_num_params arg + 2) = (Inl err, ctx)"
      using g r c by (simp add: n_def)
    have "open_session_in_flight e ctx arg param = None"
      by (simp only: open_session_in_flight_def g' prod.case sum.case)
    moreover have "mipstee_open_session e ce ctx arg param = (err, arg, param, ctx)"
      by (simp only: mipstee_open_session_def g' prod.case sum.case)
    ultimately show thesis
      by (rule ended [of err ctx "[]"]) simp_all
  next
    fix err assume r: "r = Inl err" and c:
      "ctx1 = ctx\<lparr>shm_next := Suc (shm_next ctx),
                  klog := klog ctx @ [ShmAlloc (shm_next ctx), ShmFree (shm_next ctx)]\<rparr>"
    have g': "get_msg_arg e ctx (arg_num_params arg + 2) = (Inl err, ctx1)"
      using g r by (simp add: n_def)
    have "open_session_in_flight e ctx arg param = None"
      by (simp only: open_session_in_flight_def g' prod.case sum.case)
    moreover have "mipstee_open_session e ce ctx arg param = (err, arg, param, ctx1)"
      by (simp only: mipstee_open_session_def g' prod.case sum.case)
    ultimately show thesis
      by (rule ended [of err ctx1 "[ShmAlloc (shm_next ctx), ShmFree (shm_next ctx)]"])
         (simp_all add: c)
  next
    assume acq: "buffer_acquired e"
      and r: "r = Inr (shm_next ctx, zero_msg_arg n)"
      and c1: "ctx1 = ctx\<lparr>shm_next := Suc (shm_next ctx),
                          klog := klog ctx @ [ShmAlloc (shm_next ctx)]\<rparr>"
    have g': "get_msg_arg e ctx (arg_num_params arg + 2) = (Inr (h, zero_msg_arg n), ctx1)"
      using g r by (simp add: n_def h_def)
    obtain irc ctx2 where a: "mipstee_alloc_cancel_idr e ctx1 (arg_cancel_id arg) = (irc, ctx2)"
      by (cases "mipstee_alloc_cancel_idr e ctx1 (arg_cancel_id arg)")
    note fr = alloc_cancel_frame [OF a]
    have c2: "sess_list ctx2 = sess_list ctx" "klog ctx2 = klog ctx @ [ShmAlloc h]"
      "shm_next ctx2 = Suc h"
      using fr c1 by (simp_all add: h_def)
    show thesis
    proof (cases "irc < 0")
      case True
      have "open_session_in_flight e ctx arg param = None"
        using True
        by (simp only: open_session_in_flight_def g' prod.case sum.case Let_def a if_True)
      moreover have "mipstee_open_session e ce ctx arg param =
          (irc, arg, param, out_label ctx2 0 h)"
        using True
        by (simp only: mipstee_open_session_def g' prod.case sum.case Let_def a if_True)
      ultimately show thesis
        by (rule ended [of irc "out_label ctx2 0 h"
              "[ShmAlloc (shm_next ctx), ShmFree (shm_next ctx)]"])
           (simp_all add: out_label_frame c2 h_def)
    next
      case False
      then have pos: "0 \<le> irc" by simp
      define msg3 where "msg3 = open_session_meta
          ((zero_msg_arg n)\<lparr>cmd := MIPSTEE_MSG_CMD_OPEN_SESSION, cancel_id := word_of_int irc\<rparr>)
          (arg_uuid arg)"
      obtain arc msg4 where
        au: "mipstee_authenticate_client msg3 (arg_clnt_login arg) = (arc, msg4)"
        by (cases "mipstee_authenticate_client msg3 (arg_clnt_login arg)")
      have arc: "arc = (if known_login (arg_clnt_login arg) then 0 else EACCES)"
        using authenticate_client_fst [of msg3 "arg_clnt_login arg"] au by simp
      have cmd4: "cmd msg4 = MIPSTEE_MSG_CMD_OPEN_SESSION"
      proof -
        have "cmd msg4 = cmd (snd (mipstee_authenticate_client msg3 (arg_clnt_login arg)))"
          by (simp add: au)
        also have "\<dots> = cmd msg3"
          by (rule authenticate_client_cmd)
        also have "\<dots> = MIPSTEE_MSG_CMD_OPEN_SESSION"
          by (simp add: msg3_def)
        finally show ?thesis .
      qed
      show thesis
      proof (cases "arc = 0")
        case False
        have "open_session_in_flight e ctx arg param = None"
          using False \<open>\<not> irc < 0\<close>
          by (simp only: open_session_in_flight_def g' prod.case sum.case Let_def a
                msg3_def [symmetric] au if_False if_True simp_thms)
        moreover have "mipstee_open_session e ce ctx arg param =
            (arc, arg, param, out_label ctx2 irc h)"
          using False \<open>\<not> irc < 0\<close>
          by (simp only: mipstee_open_session_def g' prod.case sum.case Let_def a
                msg3_def [symmetric] au if_False if_True simp_thms)
        ultimately show thesis
          by (rule ended [of arc "out_label ctx2 irc h"
                "[ShmAlloc (shm_next ctx), ShmFree (shm_next ctx)]"])
             (simp_all add: out_label_frame c2 h_def)
      next
        case True
        note arc0 = this
        obtain x slots where tm: "to_msg_param_res e param (drop 2 (params msg4)) = (x, slots)"
          by (cases "to_msg_param_res e param (drop 2 (params msg4))")
        define ctx2a where "ctx2a = ctx2\<lparr>klog := klog ctx2 @ [ToMsgParam x]\<rparr>"
        have tmm: "mipstee_to_msg_param e ctx2 param (drop 2 (params msg4)) = (x, slots, ctx2a)"
          using tm by (simp add: to_msg_param_eq ctx2a_def)
        have c2a: "sess_list ctx2a = sess_list ctx"
          "klog ctx2a = klog ctx @ [ShmAlloc h, ToMsgParam x]"
          "shm_next ctx2a = Suc h" "cancel_idr ctx2a = cancel_idr ctx2"
          using c2 by (simp_all add: ctx2a_def)
        define msg5 where "msg5 = msg4\<lparr>params := take 2 (params msg4) @ slots\<rparr>"
        show thesis
        proof (cases "x \<noteq> 0 \<or> kzalloc_fails e")
          case True
          define rv where "rv = (if x \<noteq> 0 then x else - ENOMEM)"
          have "open_session_in_flight e ctx arg param = None"
            using True \<open>\<not> irc < 0\<close> arc0
            apply (simp only: open_session_in_flight_def g' prod.case sum.case Let_def a
                msg3_def [symmetric] au tmm if_False if_True simp_thms)
            apply auto
            done
          moreover have "mipstee_open_session e ce ctx arg param =
              (rv, arg, param, out_label ctx2a irc h)"
            using True \<open>\<not> irc < 0\<close> arc0 unfolding rv_def
            apply (simp only: mipstee_open_session_def g' prod.case sum.case Let_def a
                msg3_def [symmetric] au tmm if_False if_True simp_thms)
            apply auto
            done
          ultimately show thesis
            by (rule ended [of rv "out_label ctx2a irc h"
                  "[ShmAlloc (shm_next ctx), ToMsgParam x, ShmFree (shm_next ctx)]"])
               (simp_all add: out_label_frame c2a h_def)
        next
          case False
          then have x0: "x = 0" and kz: "\<not> kzalloc_fails e" by simp_all
          have f: "open_session_in_flight e ctx arg param = Some (ctx2a, msg5, irc, h)"
            using \<open>\<not> irc < 0\<close> arc0 x0 kz
            by (simp only: open_session_in_flight_def g' prod.case sum.case Let_def a
                msg3_def [symmetric] au tmm if_False if_True simp_thms
                msg5_def [symmetric])
          have o: "mipstee_open_session e ce ctx arg param =
              (case open_session_exchange e ce ctx2a arg param msg5 of
                 (arg1, param', ctx6) \<Rightarrow> (0, arg1, param', out_label ctx6 irc h))"
            using \<open>\<not> irc < 0\<close> arc0 x0 kz
            by (simp only: mipstee_open_session_def g' prod.case sum.case Let_def a
                msg3_def [symmetric] au tmm if_False if_True simp_thms
                msg5_def [symmetric])
          have cm5: "cmd msg5 = MIPSTEE_MSG_CMD_OPEN_SESSION"
            using cmd4 by (simp add: msg5_def)
          have i1: "cancel_idr ctx1 = cancel_idr ctx" using c1 by simp
          from f o acq cm5 show thesis
            by (rule flight [of ctx2a msg5 irc h ctx1 ctx2])
               (simp_all add: h_def c2a [unfolded h_def x0] i1 a pos)
        qed
      qed
    qed
  qed
qed

lemma open_session_in_flight_run:
  assumes "open_session_in_flight e ctx arg param = Some (c, m, i, h)"
  shows "mipstee_open_session e ce ctx arg param =
         (case open_session_exchange e ce c arg param m of
            (arg1, param', ctx6) \<Rightarrow> (0, arg1, param', out_label ctx6 i h))"
proof (cases rule: open_session_stages [of e ctx arg param ce])
  case (ended rc ctx' evs)
  with assms show ?thesis by simp
next
  case (flight c' m' i' h' ctx1 c2)
  with assms show ?thesis by simp
qed

lemma open_session_not_in_flight:
  assumes "open_session_in_flight e ctx arg param = None"
  shows "filter is_transport
           (new_events ctx (snd (snd (snd (mipstee_open_session e ce ctx arg param))))) = []
         \<and> sess_list (snd (snd (snd (mipstee_open_session e ce ctx arg param)))) = sess_list ctx"
proof (cases rule: open_session_stages [of e ctx arg param ce])
  case (ended rc ctx' evs)
  then show ?thesis by (simp add: new_events_def)
next
  case (flight c' m' i' h' ctx1 c2)
  with assms show ?thesis by simp
qed

subsection \<open>Statuses of the early exits\<close>

lemma get_msg_arg_error_range:
  assumes "errptr_ok e" and "get_msg_arg e ctx n = (Inl err, c)"
  shows "- 4095 \<le> err \<and> err < 0"
  using assms
  by (auto simp: get_msg_arg_def tee_shm_alloc_def errptr_ok_def is_errno_def
        split: option.splits if_splits)

lemma get_msg_arg_not_acquired:
  assumes "\<not> buffer_acquired e"
  shows "\<exists>err c. get_msg_arg e ctx n = (Inl err, c)"
  using assms
  by (auto simp: get_msg_arg_def tee_shm_alloc_def buffer_acquired_def
        split: option.splits)

lemma alloc_cancel_status_frame:
  "cancel_idr c = cancel_idr ctx \<Longrightarrow>
   fst (mipstee_alloc_cancel_idr e c cid) = fst (mipstee_alloc_cancel_idr e ctx cid)"
  by (simp add: mipstee_alloc_cancel_idr_def Let_def split_beta)

lemma unknown_login_status:
  assumes ul: "\<not> known_login (arg_clnt_login arg)"
  shows "fst (mipstee_open_session e ce ctx arg param) =
     (case fst (get_msg_arg e ctx (arg_num_params arg + 2)) of
        Inl err \<Rightarrow> err
      | Inr b \<Rightarrow>
          if fst (mipstee_alloc_cancel_idr e ctx (arg_cancel_id arg)) < 0
          then fst (mipstee_alloc_cancel_idr e ctx (arg_cancel_id arg))
          else EACCES)"
proof -
  define n where "n = arg_num_params arg + 2"
  obtain r ctx1 where g: "get_msg_arg e ctx n = (r, ctx1)"
    by (cases "get_msg_arg e ctx n")
  from get_msg_arg_cases [OF g] show ?thesis
  proof (elim disjE exE conjE)
    fix err assume "r = Inl err" "ctx1 = ctx"
    with g show ?thesis by (simp add: mipstee_open_session_def n_def)
  next
    fix err assume "r = Inl err"
      "ctx1 = ctx\<lparr>shm_next := Suc (shm_next ctx),
                  klog := klog ctx @ [ShmAlloc (shm_next ctx), ShmFree (shm_next ctx)]\<rparr>"
    with g show ?thesis by (simp add: mipstee_open_session_def n_def)
  next
    assume r: "r = Inr (shm_next ctx, zero_msg_arg n)"
      and c1: "ctx1 = ctx\<lparr>shm_next := Suc (shm_next ctx),
                          klog := klog ctx @ [ShmAlloc (shm_next ctx)]\<rparr>"
    have g': "get_msg_arg e ctx (arg_num_params arg + 2) =
        (Inr (shm_next ctx, zero_msg_arg n), ctx1)"
      using g r by (simp add: n_def)
    obtain irc ctx2 where a: "mipstee_alloc_cancel_idr e ctx1 (arg_cancel_id arg) = (irc, ctx2)"
      by (cases "mipstee_alloc_cancel_idr e ctx1 (arg_cancel_id arg)")
    have a0: "fst (mipstee_alloc_cancel_idr e ctx (arg_cancel_id arg)) = irc"
      using alloc_cancel_status_frame [of ctx1 ctx e "arg_cancel_id arg"] a c1 by simp
    define msg3 where "msg3 = open_session_meta
        ((zero_msg_arg n)\<lparr>cmd := MIPSTEE_MSG_CMD_OPEN_SESSION, cancel_id := word_of_int irc\<rparr>)
        (arg_uuid arg)"
    obtain arc msg4 where
      au: "mipstee_authenticate_client msg3 (arg_clnt_login arg) = (arc, msg4)"
      by (cases "mipstee_authenticate_client msg3 (arg_clnt_login arg)")
    have arc: "arc = EACCES" "arc \<noteq> 0"
      using authenticate_client_fst [of msg3 "arg_clnt_login arg"] au ul
      by (simp_all add: EACCES_def)
    show ?thesis
    proof (cases "irc < 0")
      case True
      have "mipstee_open_session e ce ctx arg param =
          (irc, arg, param, out_label ctx2 0 (shm_next ctx))"
        using True
        by (simp only: mipstee_open_session_def g' prod.case sum.case Let_def a if_True)
      with True a0 g' show ?thesis by simp
    next
      case False
      have "mipstee_open_session e ce ctx arg param =
          (arc, arg, param, out_label ctx2 irc (shm_next ctx))"
        using False arc(2)
        by (simp only: mipstee_open_session_def g' prod.case sum.case Let_def a
              msg3_def [symmetric] au if_False if_True simp_thms)
      with False a0 g' arc(1) show ?thesis by simp
    qed
  qed
qed

subsection \<open>A live token and a second allocation\<close>





subsection \<open>Session ids stay distinct\<close>

lemma close_session_list:
  "sess_list (snd (mipstee_close_session e c sid)) =
     (case find_session_from (sess_list c) sid of
        None \<Rightarrow> sess_list c | Some sess \<Rightarrow> remove1 sess (sess_list c))"
proof -
  obtain rc c' where r: "mipstee_close_session e c sid = (rc, c')"
    by (cases "mipstee_close_session e c sid")
  from close_cases_exact [OF r] show ?thesis
    by (auto simp: r find_session_def split: option.splits)
qed

lemma exchange_list:
  assumes "open_session_exchange e ce c arg param m = (arg', param', c')"
    and "cmd m \<noteq> MIPSTEE_MSG_CMD_CANCEL"
  shows "sess_list c' =
      (if ret (open_answer e m) = TEEC_SUCCESS
       then \<lparr>session_id = session (open_answer e m)\<rparr> # sess_list c else sess_list c)
    \<or> sess_list c' = sess_list (snd (mipstee_close_session ce
         (c\<lparr>sess_list := (if ret (open_answer e m) = TEEC_SUCCESS
               then \<lparr>session_id = session (open_answer e m)\<rparr> # sess_list c
               else sess_list c)\<rparr>) (session (open_answer e m))))"
  using assms
proof (cases rule: exchange_cases)
  case (returned trc resp msg7)
  from open_answer_eq [OF returned(1)] returned(2) have "msg7 = open_answer e m" by simp
  with returned(5) show ?thesis by simp
next
  case (closed trc resp msg7 frc crc ctx5)
  from open_answer_eq [OF closed(1)] closed(2) have m7: "msg7 = open_answer e m" by simp
  have "sess_list c' = sess_list (snd (mipstee_close_session ce ctx5 (session msg7)))"
    using closed(7) by simp
  also have "\<dots> = sess_list (snd (mipstee_close_session ce
         (c\<lparr>sess_list := sess_list ctx5\<rparr>) (session msg7)))"
    by (simp add: close_session_list split: option.splits)
  finally show ?thesis
    using closed(6) m7 by simp
qed

lemma open_keeps_distinct:
  assumes d: "distinct (map session_id (sess_list ctx))"
    and f: "peer_assigns_fresh (OpenSession e ce arg param) ctx"
  shows "distinct (map session_id (sess_list (exec_call (OpenSession e ce arg param) ctx)))"
proof (cases rule: open_session_stages [of e ctx arg param ce])
  case (ended rc ctx' evs)
  with d show ?thesis by simp
next
  case (flight c m i h ctx1 c2)
  obtain a1 p1 c6 where ex: "open_session_exchange e ce c arg param m = (a1, p1, c6)"
    by (cases "open_session_exchange e ce c arg param m") 
  have nc: "cmd m \<noteq> MIPSTEE_MSG_CMD_CANCEL"
    using flight(4) by (simp add: MIPSTEE_MSG_CMD_OPEN_SESSION_def MIPSTEE_MSG_CMD_CANCEL_def)
  define l' where "l' = (if ret (open_answer e m) = TEEC_SUCCESS
       then \<lparr>session_id = session (open_answer e m)\<rparr> # sess_list ctx else sess_list ctx)"
  have fresh: "ret (open_answer e m) = TEEC_SUCCESS \<Longrightarrow>
      find_session ctx (session (open_answer e m)) = None"
    using f flight(1) by simp
  have dl: "distinct (map session_id l')"
  proof (cases "ret (open_answer e m) = TEEC_SUCCESS")
    case False
    with d show ?thesis by (simp add: l'_def)
  next
    case True
    from fresh [OF True]
    have "session (open_answer e m) \<notin> session_id ` set (sess_list ctx)"
      using find_session_from_notin [of "sess_list ctx" "session (open_answer e m)"]
      by (simp add: find_session_def)
    with d True show ?thesis by (simp add: l'_def)
  qed
  have res: "sess_list (exec_call (OpenSession e ce arg param) ctx) = sess_list c6"
    using flight(2) ex by (simp add: out_label_frame)
  have "sess_list c6 = l' \<or> sess_list c6 =
      sess_list (snd (mipstee_close_session ce (c\<lparr>sess_list := l'\<rparr>)
        (session (open_answer e m))))"
    unfolding l'_def by (rule exchange_list [OF ex nc, unfolded flight(6)])
  then have "distinct (map session_id (sess_list c6))"
    using dl by (auto simp: close_session_list distinct_map_remove1 split: option.splits)
  with res show ?thesis by simp
qed

lemma call_keeps_distinct:
  assumes "distinct (map session_id (sess_list ctx))" and "peer_assigns_fresh c ctx"
  shows "distinct (map session_id (sess_list (exec_call c ctx)))"
proof (cases c)
  case (OpenSession e ce arg param)
  with assms show ?thesis by (simp only: open_keeps_distinct)
next
  case (CloseSession e sid)
  with assms(1) show ?thesis
    by (auto simp: close_session_list distinct_map_remove1 split: option.splits)
next
  case (InvokeFunc e arg param)
  obtain rc arg' param' ctx' where
    r: "mipstee_invoke_func e ctx arg param = (rc, arg', param', ctx')"
    by (cases "mipstee_invoke_func e ctx arg param") 
  from invoke_cases [OF r] assms(1) InvokeFunc r show ?thesis by simp
next
  case (CancelReq e cid sid)
  obtain rc ctx' where r: "mipstee_cancel_req e ctx cid sid = (rc, ctx')"
    by (cases "mipstee_cancel_req e ctx cid sid")
  from cancel_cases [OF r] assms(1) CancelReq r show ?thesis by simp
qed

lemma calls_keep_distinct:
  "distinct (map session_id (sess_list ctx)) \<Longrightarrow> peer_fresh_calls cs ctx \<Longrightarrow>
   distinct (map session_id (sess_list (exec_calls cs ctx)))"
proof (induction cs arbitrary: ctx)
  case Nil
  then show ?case by simp
next
  case (Cons c cs)
  from Cons.prems have "distinct (map session_id (sess_list (exec_call c ctx)))"
    by (simp add: call_keeps_distinct)
  with Cons show ?case by simp
qed

section \<open>Properties of the specification\<close>

text \<open>
  C1. In an open-session call whose round trip returns a negative status (a C \<open>int\<close>,
  so not below \<open>INT_MIN\<close>), the caller's result is the communication error with origin
  comms, the session list gains no record, and after the call no token is live for the
  call's cancel id. The idr of the context is taken to be as the driver keeps it: ids
  from 1, cancel id 0 never stored.
\<close>

theorem open_session_transport_failure:
  assumes run: "mipstee_open_session e ce ctx arg param = (rc, arg', param', ctx')"
    and wf: "idr_wf (cancel_idr ctx)"
    and ev: "TipcCall m trc \<in> set (new_events ctx ctx')"
    and cm: "cmd m = MIPSTEE_MSG_CMD_OPEN_SESSION"
    and neg: "INT_MIN \<le> trc" "trc < 0"
  shows "arg_ret arg' = TEEC_ERROR_COMMUNICATION \<and> arg_ret_origin arg' = TEEC_ORIGIN_COMMS
     \<and> mset (sess_list ctx') \<subseteq># mset (sess_list ctx)
     \<and> \<not> cancel_live ctx' (arg_cancel_id arg)"
proof -
  have w: "(word_of_int trc :: u32) \<noteq> 0"
    using neg by (rule word_of_int_neg_nonzero)
  have ne: "TEEC_ERROR_COMMUNICATION \<noteq> TEEC_SUCCESS"
    by (simp add: TEEC_ERROR_COMMUNICATION_def TEEC_SUCCESS_def)
  have oc: "MIPSTEE_MSG_CMD_OPEN_SESSION \<noteq> MIPSTEE_MSG_CMD_CLOSE_SESSION"
    by (simp add: MIPSTEE_MSG_CMD_OPEN_SESSION_def MIPSTEE_MSG_CMD_CLOSE_SESSION_def)
  from run show ?thesis
  proof (cases rule: open_session_outcome)
    case (early evs)
    with ev show ?thesis by (auto simp: new_events_def)
  next
    case (returned m0 trc0 resp msg7)
    from ev returned(12) have same: "m0 = m" "trc0 = trc"
      by (auto simp: new_events_def)
    have m7: "msg7 = comm_error resp"
      using returned(6) same w neg by simp
    have nl: "\<not> cancel_live ctx' (arg_cancel_id arg)"
      using not_matched_not_live [OF wf returned(3)] returned(11)
      by (simp add: cancel_live_def)
    from returned(9,10) m7 ne nl show ?thesis
      by (simp add: comm_error_def)
  next
    case (closed m0 trc0 resp msg7 frc l' cevs)
    from ev closed(14) closed(15) cm oc have same: "m0 = m" "trc0 = trc"
      by (auto simp: new_events_def)
    have m7: "msg7 = comm_error resp"
      using closed(6) same w neg by simp
    have l: "l' = sess_list ctx"
      using closed(11) m7 ne by (simp add: comm_error_def)
    have nl: "\<not> cancel_live ctx' (arg_cancel_id arg)"
      using not_matched_not_live [OF wf closed(3)] closed(13)
      by (simp add: cancel_live_def)
    have "mset (sess_list ctx') \<subseteq># mset (sess_list ctx)"
      using closed(12) l by (auto simp: mset_remove1_subset split: option.splits)
    with closed(10) nl show ?thesis by simp
  qed
qed

text \<open>
  The scenario of the specification: public login, no parameters, cancel id 5, the
  channel returning \<open>-5\<close>.
\<close>

theorem open_session_transport_failure_witness:
  "idr_wf (cancel_idr mipstee_ctx_init)
   \<and> TipcCall open_request_example (- 5) \<in> set (new_events mipstee_ctx_init
        (snd (snd (snd (mipstee_open_session env_peer_unreachable (env_good 0)
           mipstee_ctx_init (open_arg_example TEEC_LOGIN_PUBLIC 5) [])))))
   \<and> cmd open_request_example = MIPSTEE_MSG_CMD_OPEN_SESSION
   \<and> INT_MIN \<le> - 5 \<and> (- 5 :: int) < 0
   \<and> arg_ret (fst (snd (mipstee_open_session env_peer_unreachable (env_good 0)
           mipstee_ctx_init (open_arg_example TEEC_LOGIN_PUBLIC 5) [])))
       = TEEC_ERROR_COMMUNICATION
   \<and> arg_ret_origin (fst (snd (mipstee_open_session env_peer_unreachable (env_good 0)
           mipstee_ctx_init (open_arg_example TEEC_LOGIN_PUBLIC 5) [])))
       = TEEC_ORIGIN_COMMS
   \<and> sess_list (snd (snd (snd (mipstee_open_session env_peer_unreachable (env_good 0)
           mipstee_ctx_init (open_arg_example TEEC_LOGIN_PUBLIC 5) [])))) = []
   \<and> \<not> cancel_live (snd (snd (snd (mipstee_open_session env_peer_unreachable (env_good 0)
           mipstee_ctx_init (open_arg_example TEEC_LOGIN_PUBLIC 5) [])))) 5"
proof -
  obtain rc arg' param' ctx' where r:
    "mipstee_open_session env_peer_unreachable (env_good 0) mipstee_ctx_init
       (open_arg_example TEEC_LOGIN_PUBLIC 5) [] = (rc, arg', param', ctx')"
    by (cases "mipstee_open_session env_peer_unreachable (env_good 0) mipstee_ctx_init
       (open_arg_example TEEC_LOGIN_PUBLIC 5) []") 
  have w: "idr_wf (cancel_idr mipstee_ctx_init)"
    by (simp add: idr_wf_def mipstee_ctx_init_def)
  have "TipcCall open_request_example (- 5) \<in> set (new_events mipstee_ctx_init
        (snd (snd (snd (mipstee_open_session env_peer_unreachable (env_good 0)
           mipstee_ctx_init (open_arg_example TEEC_LOGIN_PUBLIC 5) [])))))"
    by code_simp
  then have ev: "TipcCall open_request_example (- 5) \<in> set (new_events mipstee_ctx_init ctx')"
    by (simp add: r)
  have c: "cmd open_request_example = MIPSTEE_MSG_CMD_OPEN_SESSION"
    by (simp add: open_request_example_def MIPSTEE_MSG_CMD_OPEN_SESSION_def)
  have n: "INT_MIN \<le> - 5" "(- 5 :: int) < 0"
    by (simp_all add: INT_MIN_def)
  have a: "arg_cancel_id (open_arg_example TEEC_LOGIN_PUBLIC 5) = 5"
    by (simp add: open_arg_example_def)
  have i: "sess_list mipstee_ctx_init = []"
    by (simp add: mipstee_ctx_init_def)
  show ?thesis
    using open_session_transport_failure [OF r w ev c n] w ev c n
    by (simp add: r a i)
qed

text \<open>
  C2, as amended. Once the record for the session id was found, it is unlinked
  whatever happens next, and the status is that of \<open>get_msg_arg\<close>: 0 when the buffer
  was acquired, whatever the round trip returns; and, the error pointers of the
  allocator carrying values between \<open>-4095\<close> and \<open>-1\<close>, a negative status when the
  buffer cannot be acquired, in which case nothing is handed to the channel.
\<close>

theorem close_session_status:
  assumes "find_session ctx sid = Some sess"
  shows "sess_list (snd (mipstee_close_session e ctx sid)) = remove1 sess (sess_list ctx)
       \<and> fst (mipstee_close_session e ctx sid) =
           (case fst (get_msg_arg e ctx 0) of Inl err \<Rightarrow> err | Inr b \<Rightarrow> 0)
       \<and> (buffer_acquired e \<longrightarrow> fst (mipstee_close_session e ctx sid) = 0)
       \<and> (errptr_ok e \<and> \<not> buffer_acquired e \<longrightarrow>
            fst (mipstee_close_session e ctx sid) < 0
            \<and> filter is_transport
                (new_events ctx (snd (mipstee_close_session e ctx sid))) = [])"
proof -
  obtain rc ctx' where c: "mipstee_close_session e ctx sid = (rc, ctx')"
    by (cases "mipstee_close_session e ctx sid")
  define ctx1 where "ctx1 = ctx\<lparr>sess_list := remove1 sess (sess_list ctx)\<rparr>"
  obtain r ctx2 where g: "get_msg_arg e ctx1 0 = (r, ctx2)"
    by (cases "get_msg_arg e ctx1 0")
  have s: "fst (get_msg_arg e ctx 0) = r"
    using g get_msg_arg_status [where e = e and ctx = ctx and l = "remove1 sess (sess_list ctx)" and n = 0]
    by (simp add: ctx1_def)
  have nc: "MIPSTEE_MSG_CMD_CLOSE_SESSION \<noteq> MIPSTEE_MSG_CMD_CANCEL"
    by (simp add: MIPSTEE_MSG_CMD_CLOSE_SESSION_def MIPSTEE_MSG_CMD_CANCEL_def)
  have st: "rc = (case r of Inl err \<Rightarrow> err | Inr b \<Rightarrow> 0)"
    using c assms g get_msg_arg_cases [OF g]
    by (auto simp: mipstee_close_session_def ctx1_def Let_def do_call_round_trip nc split_beta)
  have ok: "buffer_acquired e \<Longrightarrow> rc = 0"
    using close_cases_exact [OF c] assms c g
    by (auto simp: mipstee_close_session_def get_msg_arg_acquired Let_def split_beta ctx1_def)
  have l: "sess_list ctx' = remove1 sess (sess_list ctx)"
    using close_cases_exact [OF c] assms by simp
  have neg: "rc < 0" if "errptr_ok e" "\<not> buffer_acquired e"
  proof -
    from get_msg_arg_not_acquired [OF that(2), of ctx1 0] g
    obtain err where r: "r = Inl err" by auto
    from get_msg_arg_error_range [OF that(1)] g r have "err < 0" by simp
    with st r show ?thesis by simp
  qed
  have quiet: "filter is_transport (new_events ctx ctx') = []" if "\<not> buffer_acquired e"
    using close_cases_exact [OF c] assms that
    by (auto simp: new_events_def)
  from st ok l neg quiet show ?thesis using c s by simp
qed

text \<open>
  Session 7 is closed while the peer cannot be reached: the record is removed and the
  status is 0. It is closed with no memory for the message buffer: the record is
  removed and the status is negative.
\<close>

theorem close_session_status_witness:
  "find_session (ctx_sessions [7]) 7 = Some \<lparr>session_id = 7\<rparr>
   \<and> buffer_acquired env_peer_unreachable
   \<and> fst (tipc_call_res env_peer_unreachable (zero_msg_arg 0)) < 0
   \<and> sess_list (snd (mipstee_close_session env_peer_unreachable (ctx_sessions [7]) 7)) = []
   \<and> fst (mipstee_close_session env_peer_unreachable (ctx_sessions [7]) 7) = 0
   \<and> errptr_ok env_no_buffer \<and> \<not> buffer_acquired env_no_buffer
   \<and> sess_list (snd (mipstee_close_session env_no_buffer (ctx_sessions [7]) 7)) = []
   \<and> fst (mipstee_close_session env_no_buffer (ctx_sessions [7]) 7) < 0"
proof -
  have h: "find_session (ctx_sessions [7]) 7 = Some \<lparr>session_id = 7\<rparr>"
    by (simp add: find_session_def ctx_sessions_def mipstee_ctx_init_def)
  have b: "buffer_acquired env_peer_unreachable"
    by (simp add: buffer_acquired_def env_peer_unreachable_def env_good_def)
  have t: "fst (tipc_call_res env_peer_unreachable (zero_msg_arg 0)) < 0"
    by (simp add: env_peer_unreachable_def peer_unreachable_def)
  have o: "errptr_ok env_no_buffer"
    by (simp add: errptr_ok_def is_errno_def env_no_buffer_def env_good_def ENOMEM_def)
  have n: "\<not> buffer_acquired env_no_buffer"
    by (simp add: buffer_acquired_def env_no_buffer_def env_good_def)
  have r: "remove1 \<lparr>session_id = 7\<rparr> (sess_list (ctx_sessions [7])) = []"
    by (simp add: ctx_sessions_def mipstee_ctx_init_def)
  show ?thesis
    using h b t o n close_session_status [OF h, of env_peer_unreachable]
      close_session_status [OF h, of env_no_buffer]
    by (simp add: r)
qed

text \<open>
  C2 as stated fails when the remote call cannot be attempted: with no memory for the
  message buffer, the record of session 7 is removed and the status is \<open>-ENOMEM\<close>.
\<close>

theorem close_session_buffer_failure_counterexample:
  "find_session (ctx_sessions [7]) 7 = Some \<lparr>session_id = 7\<rparr>
   \<and> sess_list (snd (mipstee_close_session env_no_buffer (ctx_sessions [7]) 7)) = []
   \<and> fst (mipstee_close_session env_no_buffer (ctx_sessions [7]) 7) = - 12"
  by (simp add: mipstee_close_session_def find_session_def ctx_sessions_def mipstee_ctx_init_def
        get_msg_arg_def tee_shm_alloc_def env_no_buffer_def env_good_def ENOMEM_def)

text \<open>
  C3. In every call of the four operations, whatever the kernel functions return, the
  message buffers allocated during the call are distinct, as many as the buffers freed
  during the call, and the same buffers: each buffer that was acquired is freed once,
  and nothing else is freed.
\<close>

theorem buffers_balanced_every_operation:
  "buffers_balanced
     (new_events ctx (snd (snd (snd (mipstee_open_session e ce ctx oarg param)))))
   \<and> buffers_balanced (new_events ctx (snd (mipstee_close_session e ctx sid)))
   \<and> buffers_balanced
       (new_events ctx (snd (snd (snd (mipstee_invoke_func e ctx iarg param)))))
   \<and> buffers_balanced (new_events ctx (snd (mipstee_cancel_req e ctx cid sid)))"
  using open_balanced close_balanced invoke_balanced cancel_balanced by simp

text \<open>
  C4, as amended. When the session list holds at most one record with the id, a
  close-session call that returns 0 leaves no record with that id, and a second
  close-session call for the id, whatever the kernel functions return, fails with
  \<open>-EINVAL\<close> and changes nothing.
\<close>

theorem close_session_then_absent:
  assumes "sess_count ctx sid \<le> 1" and "mipstee_close_session e ctx sid = (0, ctx')"
  shows "find_session ctx' sid = None
     \<and> mipstee_close_session e' ctx' sid = (- EINVAL, ctx')"
proof (cases "find_session ctx sid")
  case None
  with assms(2) show ?thesis
    by (simp add: mipstee_close_session_def EINVAL_def)
next
  case (Some sess)
  from close_cases_exact [OF assms(2)] Some
  have l: "sess_list ctx' = remove1 sess (sess_list ctx)" by simp
  from Some have s: "session_id sess = sid" "sess \<in> set (sess_list ctx)"
    using find_session_from_Some [of "sess_list ctx" sid sess]
    by (simp_all add: find_session_def)
  have "Suc (sess_count ctx' sid) = sess_count ctx sid"
    using l s filter_remove1_length [of sess "sess_list ctx" "\<lambda>s. session_id s = sid"]
    by (simp add: sess_count_def)
  with assms(1) have "sess_count ctx' sid = 0" by simp
  then have "find_session ctx' sid = None"
    by (simp add: find_session_absent)
  then show ?thesis
    by (simp add: mipstee_close_session_def)
qed

text \<open>
  Session 42 alone in the list: the first call returns 0, the second \<open>-EINVAL\<close>.
\<close>

theorem close_session_then_absent_witness:
  "sess_count (ctx_sessions [42]) 42 \<le> 1
   \<and> fst (mipstee_close_session (env_good 0) (ctx_sessions [42]) 42) = 0
   \<and> find_session (snd (mipstee_close_session (env_good 0) (ctx_sessions [42]) 42)) 42 = None
   \<and> fst (mipstee_close_session (env_good 0)
            (snd (mipstee_close_session (env_good 0) (ctx_sessions [42]) 42)) 42) = - EINVAL"
proof -
  have c: "sess_count (ctx_sessions [42]) 42 \<le> 1"
    by (simp add: sess_count_def ctx_sessions_def mipstee_ctx_init_def)
  have "fst (mipstee_close_session (env_good 0) (ctx_sessions [42]) 42) = 0"
    by code_simp
  then obtain ctx' where r: "mipstee_close_session (env_good 0) (ctx_sessions [42]) 42 = (0, ctx')"
    by (cases "mipstee_close_session (env_good 0) (ctx_sessions [42]) 42") simp
  show ?thesis
    using c close_session_then_absent [OF c r, of "env_good 0"] by (simp add: r)
qed

text \<open>
  C4 as stated fails when the list holds two records with the id, as it does after two
  open-session calls that the peer both answered with session id 42: the first
  close-session call returns 0 and still leaves a record for 42, and the second returns
  0 as well.
\<close>

theorem close_session_duplicate_id_counterexample:
  "sess_count (exec_calls [open_call 42, open_call 42] mipstee_ctx_init) 42 = 2
   \<and> fst (mipstee_close_session (env_good 0)
            (exec_calls [open_call 42, open_call 42] mipstee_ctx_init) 42) = 0
   \<and> find_session (snd (mipstee_close_session (env_good 0)
            (exec_calls [open_call 42, open_call 42] mipstee_ctx_init) 42)) 42
       = Some \<lparr>session_id = 42\<rparr>
   \<and> fst (mipstee_close_session (env_good 0)
            (snd (mipstee_close_session (env_good 0)
               (exec_calls [open_call 42, open_call 42] mipstee_ctx_init) 42)) 42) = 0"
  by code_simp

text \<open>
  C5. An invoke-command call whose session id is not in the session list returns
  \<open>-EINVAL\<close> and does nothing else: the context, and with it the log of buffer
  allocations and channel calls and the cancellation idr, is the one it started from.
\<close>

theorem invoke_unknown_session_rejected:
  assumes "find_session ctx (inv_session arg) = None"
  shows "mipstee_invoke_func e ctx arg param = (- EINVAL, arg, param, ctx)
         \<and> new_events ctx (snd (snd (snd (mipstee_invoke_func e ctx arg param)))) = []"
  using assms by (simp add: mipstee_invoke_func_def new_events_def)

text \<open>On a new context, session 42 is unknown and the call is rejected.\<close>

theorem invoke_unknown_session_rejected_witness:
  "find_session mipstee_ctx_init (inv_session (invoke_arg_example 42)) = None
   \<and> mipstee_invoke_func (env_good 42) mipstee_ctx_init (invoke_arg_example 42) [] =
       (- EINVAL, invoke_arg_example 42, [], mipstee_ctx_init)"
proof -
  have h: "find_session mipstee_ctx_init (inv_session (invoke_arg_example 42)) = None"
    by (simp add: find_session_def mipstee_ctx_init_def)
  show ?thesis
    using h invoke_unknown_session_rejected [OF h, of "env_good 42" "[]"] by simp
qed




text \<open>
  C7, as amended. In an open-session call whose back-conversion fails, the caller's
  result is the communication error with origin comms, and the close-session sequence
  is performed for the session id in the peer's answer: the session list after the call
  is the one \<open>mipstee_close_session\<close> leaves for that id, started on the list of the
  call with the record of the new session in front when the answer reported success;
  and when the answer reported success and the inner close-session call gets its
  buffer, the close message for that id is handed to the channel. When the session
  list held no record with that id before the call, it holds none after it and is the
  list the call started from.
\<close>

theorem open_session_back_conversion_failure:
  assumes run: "mipstee_open_session e ce ctx arg param = (rc, arg', param', ctx')"
    and ev: "FromMsgParam frc \<in> set (new_events ctx ctx')" and nz: "frc \<noteq> 0"
    and call: "TipcCall m trc \<in> set (new_events ctx ctx')"
    and cm: "cmd m = MIPSTEE_MSG_CMD_OPEN_SESSION"
  shows "arg_ret arg' = TEEC_ERROR_COMMUNICATION \<and> arg_ret_origin arg' = TEEC_ORIGIN_COMMS
     \<and> sess_list ctx' =
         sess_list (snd (mipstee_close_session ce
           (ctx\<lparr>sess_list := (if ret (open_answer e m) = TEEC_SUCCESS
                               then \<lparr>session_id = session (snd (tipc_call_res e m))\<rparr> # sess_list ctx
                               else sess_list ctx)\<rparr>)
           (session (snd (tipc_call_res e m)))))
     \<and> (ret (open_answer e m) = TEEC_SUCCESS \<and> buffer_acquired ce \<longrightarrow>
          TipcCall (close_request (session (snd (tipc_call_res e m))))
            (fst (tipc_call_res ce (close_request (session (snd (tipc_call_res e m))))))
          \<in> set (new_events ctx ctx'))
     \<and> (sess_count ctx (session (snd (tipc_call_res e m))) = 0 \<longrightarrow>
          find_session ctx' (session (snd (tipc_call_res e m))) = None
          \<and> sess_list ctx' = sess_list ctx)"
proof -
  have oc: "MIPSTEE_MSG_CMD_OPEN_SESSION \<noteq> MIPSTEE_MSG_CMD_CLOSE_SESSION"
    by (simp add: MIPSTEE_MSG_CMD_OPEN_SESSION_def MIPSTEE_MSG_CMD_CLOSE_SESSION_def)
  define X where "X = session (snd (tipc_call_res e m))"
  from run show ?thesis
  proof (cases rule: open_session_outcome)
    case (early evs)
    with ev show ?thesis by (auto simp: new_events_def)
  next
    case (returned m0 trc0 resp msg7)
    with ev nz show ?thesis by (auto simp: new_events_def)
  next
    case (closed m0 trc0 resp msg7 frc0 l' cevs)
    from call closed(14) closed(15) cm oc have same: "m0 = m" "trc0 = trc"
      by (auto simp: new_events_def)
    have m7: "msg7 = open_answer e m"
      using open_answer_eq [OF closed(5)] closed(6) same by simp
    have sx: "session msg7 = X"
      by (simp add: m7 X_def)
    have l': "l' = (if ret (open_answer e m) = TEEC_SUCCESS
                    then \<lparr>session_id = X\<rparr> # sess_list ctx else sess_list ctx)"
      using closed(11) sx by (simp add: m7)
    have cl: "sess_list ctx' = sess_list (snd (mipstee_close_session ce
           (ctx\<lparr>sess_list := l'\<rparr>) X))"
      using closed(12) sx by (simp add: close_session_list split: option.splits)
    have sl: "sess_list ctx' = sess_list ctx"
      if fresh: "sess_count ctx X = 0"
    proof -
      have absent: "find_session_from (sess_list ctx) X = None"
        using fresh by (simp add: find_session_absent [symmetric] find_session_def)
      show ?thesis
      proof (cases "ret (open_answer e m) = TEEC_SUCCESS")
        case True
        then show ?thesis using closed(12) sx l' by simp
      next
        case False
        then show ?thesis using closed(12) sx l' absent by simp
      qed
    qed
    have fa: "find_session ctx' X = None" if fresh: "sess_count ctx X = 0"
    proof -
      have "sess_count ctx' X = 0"
        using sl [OF fresh] fresh by (simp add: sess_count_def)
      then show ?thesis by (simp add: find_session_absent)
    qed
    have sent: "TipcCall (close_request X) (fst (tipc_call_res ce (close_request X)))
          \<in> set (new_events ctx ctx')"
      if "ret (open_answer e m) = TEEC_SUCCESS" "buffer_acquired ce"
    proof -
      have "find_session_from l' (session msg7) \<noteq> None"
        using sx l' that(1) by simp
      with closed(16) that(2) closed(14) show ?thesis
        by (simp add: new_events_def sx close_request_def)
    qed
    from closed(10) fa sl sent cl [unfolded l'] show ?thesis
      unfolding X_def by simp
  qed
qed

text \<open>
  On a new context the peer opens session 42 and the back-conversion fails with
  \<open>-EINVAL\<close>: the caller sees the communication error, the close message for 42 is
  sent and no record remains.
\<close>

theorem open_session_back_conversion_failure_witness:
  "FromMsgParam (- EINVAL) \<in> set (new_events mipstee_ctx_init
      (snd (snd (snd (mipstee_open_session (env_back_conversion_fails 42) (env_good 0)
         mipstee_ctx_init (open_arg_example TEEC_LOGIN_PUBLIC 0) [])))))
   \<and> - EINVAL \<noteq> 0
   \<and> TipcCall (open_request_example\<lparr>cancel_id := 0\<rparr>) 0 \<in> set (new_events mipstee_ctx_init
      (snd (snd (snd (mipstee_open_session (env_back_conversion_fails 42) (env_good 0)
         mipstee_ctx_init (open_arg_example TEEC_LOGIN_PUBLIC 0) [])))))
   \<and> ret (open_answer (env_back_conversion_fails 42) (open_request_example\<lparr>cancel_id := 0\<rparr>))
       = TEEC_SUCCESS
   \<and> buffer_acquired (env_good 0)
   \<and> sess_count mipstee_ctx_init 42 = 0
   \<and> arg_ret (fst (snd (mipstee_open_session (env_back_conversion_fails 42) (env_good 0)
         mipstee_ctx_init (open_arg_example TEEC_LOGIN_PUBLIC 0) []))) = TEEC_ERROR_COMMUNICATION
   \<and> arg_ret_origin (fst (snd (mipstee_open_session (env_back_conversion_fails 42) (env_good 0)
         mipstee_ctx_init (open_arg_example TEEC_LOGIN_PUBLIC 0) []))) = TEEC_ORIGIN_COMMS
   \<and> TipcCall (close_request 42) 0 \<in> set (new_events mipstee_ctx_init
      (snd (snd (snd (mipstee_open_session (env_back_conversion_fails 42) (env_good 0)
         mipstee_ctx_init (open_arg_example TEEC_LOGIN_PUBLIC 0) [])))))
   \<and> find_session (snd (snd (snd (mipstee_open_session (env_back_conversion_fails 42)
         (env_good 0) mipstee_ctx_init (open_arg_example TEEC_LOGIN_PUBLIC 0) [])))) 42 = None
   \<and> sess_list (snd (snd (snd (mipstee_open_session (env_back_conversion_fails 42)
         (env_good 0) mipstee_ctx_init (open_arg_example TEEC_LOGIN_PUBLIC 0) [])))) = []"
proof -
  define m where "m = open_request_example\<lparr>cancel_id := 0\<rparr>"
  obtain rc arg' param' ctx' where r:
    "mipstee_open_session (env_back_conversion_fails 42) (env_good 0) mipstee_ctx_init
       (open_arg_example TEEC_LOGIN_PUBLIC 0) [] = (rc, arg', param', ctx')"
    by (cases "mipstee_open_session (env_back_conversion_fails 42) (env_good 0)
       mipstee_ctx_init (open_arg_example TEEC_LOGIN_PUBLIC 0) []") 
  have "FromMsgParam (- EINVAL) \<in> set (new_events mipstee_ctx_init
      (snd (snd (snd (mipstee_open_session (env_back_conversion_fails 42) (env_good 0)
         mipstee_ctx_init (open_arg_example TEEC_LOGIN_PUBLIC 0) [])))))"
    by code_simp
  then have ev: "FromMsgParam (- EINVAL) \<in> set (new_events mipstee_ctx_init ctx')"
    by (simp add: r)
  have nz: "- EINVAL \<noteq> 0" by (simp add: EINVAL_def)
  have "TipcCall (open_request_example\<lparr>cancel_id := 0\<rparr>) 0 \<in> set (new_events mipstee_ctx_init
      (snd (snd (snd (mipstee_open_session (env_back_conversion_fails 42) (env_good 0)
         mipstee_ctx_init (open_arg_example TEEC_LOGIN_PUBLIC 0) [])))))"
    by code_simp
  then have call: "TipcCall m 0 \<in> set (new_events mipstee_ctx_init ctx')"
    by (simp add: r m_def)
  have cm: "cmd m = MIPSTEE_MSG_CMD_OPEN_SESSION"
    by (simp add: m_def open_request_example_def MIPSTEE_MSG_CMD_OPEN_SESSION_def)
  have x: "session (snd (tipc_call_res (env_back_conversion_fails 42) m)) = 42"
    by (simp add: env_back_conversion_fails_def env_good_def peer_opens_def)
  have "ret (open_answer (env_back_conversion_fails 42) (open_request_example\<lparr>cancel_id := 0\<rparr>))
       = TEEC_SUCCESS"
    by code_simp
  then have s: "ret (open_answer (env_back_conversion_fails 42) m) = TEEC_SUCCESS"
    by (simp add: m_def)
  have fresh: "sess_count mipstee_ctx_init 42 = 0"
    by (simp add: sess_count_def mipstee_ctx_init_def)
  have il: "sess_list mipstee_ctx_init = []"
    by (simp add: mipstee_ctx_init_def)
  have b: "buffer_acquired (env_good 0)"
    by (simp add: buffer_acquired_def env_good_def)
  have c0: "fst (tipc_call_res (env_good 0) (close_request 42)) = 0"
    by (simp add: env_good_def peer_opens_def)
  from open_session_back_conversion_failure [OF r ev nz call cm, unfolded x c0] s b fresh
  have "arg_ret arg' = TEEC_ERROR_COMMUNICATION \<and> arg_ret_origin arg' = TEEC_ORIGIN_COMMS
     \<and> TipcCall (close_request 42) 0 \<in> set (new_events mipstee_ctx_init ctx')
     \<and> find_session ctx' 42 = None \<and> sess_list ctx' = sess_list mipstee_ctx_init"
    by blast
  with ev nz call s b fresh il show ?thesis
    by (simp add: r m_def)
qed

text \<open>
  C7 as stated fails when the list already holds a record with the id the peer
  assigns: after one open-session call answered with 42, a second one answered with 42
  whose back-conversion fails closes session 42 once, and a record for 42 remains.
\<close>

theorem open_session_duplicate_id_counterexample:
  "sess_list (exec_calls [open_call 42] mipstee_ctx_init) = [\<lparr>session_id = 42\<rparr>]
   \<and> FromMsgParam (- EINVAL) \<in> set (new_events (exec_calls [open_call 42] mipstee_ctx_init)
      (snd (snd (snd (mipstee_open_session (env_back_conversion_fails 42) (env_good 0)
         (exec_calls [open_call 42] mipstee_ctx_init)
         (open_arg_example TEEC_LOGIN_PUBLIC 0) [])))))
   \<and> TipcCall (close_request 42) 0 \<in> set (new_events (exec_calls [open_call 42] mipstee_ctx_init)
      (snd (snd (snd (mipstee_open_session (env_back_conversion_fails 42) (env_good 0)
         (exec_calls [open_call 42] mipstee_ctx_init)
         (open_arg_example TEEC_LOGIN_PUBLIC 0) [])))))
   \<and> arg_ret (fst (snd (mipstee_open_session (env_back_conversion_fails 42) (env_good 0)
         (exec_calls [open_call 42] mipstee_ctx_init)
         (open_arg_example TEEC_LOGIN_PUBLIC 0) []))) = TEEC_ERROR_COMMUNICATION
   \<and> find_session (snd (snd (snd (mipstee_open_session (env_back_conversion_fails 42)
         (env_good 0) (exec_calls [open_call 42] mipstee_ctx_init)
         (open_arg_example TEEC_LOGIN_PUBLIC 0) [])))) 42 = Some \<lparr>session_id = 42\<rparr>"
  by code_simp

text \<open>
  C8, as amended. Starting from a new context, after any sequence of open-session,
  close-session, invoke-command and cancel-request calls in which the peer assigns
  fresh ids (the answer to the open-session message that a call sends never reports
  success with a session id that is in the list at that moment), the list holds at
  most one record per session id.
\<close>

theorem session_ids_unique_with_fresh_peer:
  assumes "peer_fresh_calls cs mipstee_ctx_init"
  shows "sess_count (exec_calls cs mipstee_ctx_init) sid \<le> 1"
proof -
  have "distinct (map session_id (sess_list mipstee_ctx_init))"
    by (simp add: mipstee_ctx_init_def)
  from calls_keep_distinct [OF this assms]
  have "distinct (map session_id (sess_list (exec_calls cs mipstee_ctx_init)))" .
  from distinct_ids_count [OF this, of sid] show ?thesis
    by (simp add: sess_count_def)
qed

text \<open>
  A sequence of the four kinds of call in which session 42 is opened, an open-session
  call does not reach the peer, another is rejected before its round trip, and session
  42 is used, closed and opened again.
\<close>

theorem session_ids_unique_with_fresh_peer_witness:
  "peer_fresh_calls calls_example mipstee_ctx_init
   \<and> sess_list (exec_calls calls_example mipstee_ctx_init) = [\<lparr>session_id = 42\<rparr>]
   \<and> sess_count (exec_calls calls_example mipstee_ctx_init) 42 \<le> 1"
proof -
  have p: "peer_fresh_calls calls_example mipstee_ctx_init"
    by code_simp
  have l: "sess_list (exec_calls calls_example mipstee_ctx_init) = [\<lparr>session_id = 42\<rparr>]"
    by code_simp
  show ?thesis
    using p l session_ids_unique_with_fresh_peer [OF p, of 42] by simp
qed

text \<open>
  C8 as stated fails: the code inserts the id the peer assigns without looking for it
  in the list, so two open-session calls that the peer both answers with session id 42
  leave two records with that id.
\<close>

theorem session_ids_duplicate_counterexample:
  "sess_list (exec_calls [open_call 42, open_call 42] mipstee_ctx_init) =
     [\<lparr>session_id = 42\<rparr>, \<lparr>session_id = 42\<rparr>]
   \<and> sess_count (exec_calls [open_call 42, open_call 42] mipstee_ctx_init) 42 = 2
   \<and> \<not> peer_fresh_calls [open_call 42, open_call 42] mipstee_ctx_init"
  by code_simp

text \<open>
  C9, as amended. An open-session call whose login class is none of the six known
  ones makes no channel call and leaves the session list as it is. Its status is
  \<open>EACCES\<close> once the message buffer and the cancellation token were obtained;
  otherwise it is the error of the step that failed, the one of \<open>get_msg_arg\<close> or the
  one of the token allocation. The error pointers of the allocator carrying values
  between \<open>-4095\<close> and \<open>-1\<close>, the status is never 0.
\<close>

theorem open_session_unknown_login:
  assumes "\<not> known_login (arg_clnt_login arg)"
    and "mipstee_open_session e ce ctx arg param = (rc, arg', param', ctx')"
  shows "filter is_transport (new_events ctx ctx') = [] \<and> sess_list ctx' = sess_list ctx
     \<and> (buffer_acquired e \<and> 0 \<le> fst (mipstee_alloc_cancel_idr e ctx (arg_cancel_id arg))
          \<longrightarrow> rc = EACCES)
     \<and> rc = (case fst (get_msg_arg e ctx (arg_num_params arg + 2)) of
               Inl err \<Rightarrow> err
             | Inr b \<Rightarrow>
                 if fst (mipstee_alloc_cancel_idr e ctx (arg_cancel_id arg)) < 0
                 then fst (mipstee_alloc_cancel_idr e ctx (arg_cancel_id arg))
                 else EACCES)
     \<and> (errptr_ok e \<longrightarrow> rc \<noteq> 0)"
proof -
  have base: "filter is_transport (new_events ctx ctx') = [] \<and> sess_list ctx' = sess_list ctx
     \<and> (buffer_acquired e \<and> 0 \<le> fst (mipstee_alloc_cancel_idr e ctx (arg_cancel_id arg))
          \<longrightarrow> rc = EACCES)"
    using assms(2)
  proof (cases rule: open_session_outcome)
    case (early evs)
    with assms(1) show ?thesis by (auto simp: new_events_def)
  next
    case (returned m trc resp msg7)
    with assms(1) show ?thesis by simp
  next
    case (closed m trc resp msg7 frc l' cevs)
    with assms(1) show ?thesis by simp
  qed
  have st: "rc = (case fst (get_msg_arg e ctx (arg_num_params arg + 2)) of
               Inl err \<Rightarrow> err
             | Inr b \<Rightarrow>
                 if fst (mipstee_alloc_cancel_idr e ctx (arg_cancel_id arg)) < 0
                 then fst (mipstee_alloc_cancel_idr e ctx (arg_cancel_id arg))
                 else EACCES)"
    using unknown_login_status [OF assms(1), of e ce ctx param] assms(2)
    by simp
  have nz: "rc \<noteq> 0" if "errptr_ok e"
  proof (cases "get_msg_arg e ctx (arg_num_params arg + 2)")
    case (Pair r c)
    show ?thesis
    proof (cases r)
      case (Inl err)
      with get_msg_arg_error_range [OF that, of ctx "arg_num_params arg + 2" err c] Pair st
      show ?thesis by simp
    next
      case (Inr b)
      with Pair st show ?thesis by (auto simp: EACCES_def split: if_splits)
    qed
  qed
  from base st nz show ?thesis by simp
qed

text \<open>
  Login class 3 is none of the six; on a new context, with buffer and token obtained,
  the status is \<open>EACCES\<close> and no session is recorded.
\<close>

theorem open_session_unknown_login_witness:
  "\<not> known_login (arg_clnt_login (open_arg_example 3 0))
   \<and> buffer_acquired (env_good 42) \<and> errptr_ok (env_good 42)
   \<and> 0 \<le> fst (mipstee_alloc_cancel_idr (env_good 42) mipstee_ctx_init
               (arg_cancel_id (open_arg_example 3 0)))
   \<and> fst (mipstee_open_session (env_good 42) (env_good 42) mipstee_ctx_init
            (open_arg_example 3 0) []) = EACCES
   \<and> sess_list (snd (snd (snd (mipstee_open_session (env_good 42) (env_good 42)
            mipstee_ctx_init (open_arg_example 3 0) [])))) = []"
proof -
  have l: "\<not> known_login (arg_clnt_login (open_arg_example 3 0))"
    by (simp add: known_login_def open_arg_example_def TEEC_LOGIN_PUBLIC_def
          TEEC_LOGIN_USER_def TEEC_LOGIN_GROUP_def TEEC_LOGIN_APPLICATION_def
          TEEC_LOGIN_USER_APPLICATION_def TEEC_LOGIN_GROUP_APPLICATION_def)
  have b: "buffer_acquired (env_good 42)"
    by (simp add: buffer_acquired_def env_good_def)
  have o: "errptr_ok (env_good 42)"
    by (simp add: errptr_ok_def env_good_def)
  have a: "0 \<le> fst (mipstee_alloc_cancel_idr (env_good 42) mipstee_ctx_init
               (arg_cancel_id (open_arg_example 3 0)))"
    by (simp add: mipstee_alloc_cancel_idr_def open_arg_example_def)
  have i: "sess_list mipstee_ctx_init = []"
    by (simp add: mipstee_ctx_init_def)
  obtain rc arg' param' ctx' where r:
    "mipstee_open_session (env_good 42) (env_good 42) mipstee_ctx_init
       (open_arg_example 3 0) [] = (rc, arg', param', ctx')"
    by (cases "mipstee_open_session (env_good 42) (env_good 42) mipstee_ctx_init
       (open_arg_example 3 0) []") 
  show ?thesis
    using l b o a open_session_unknown_login [OF l r] by (simp add: r i)
qed

text \<open>
  C9 as stated fails when an earlier step fails: with login class 3 the status is
  \<open>-ENOMEM\<close> when there is no memory for the message buffer, and \<open>-EINVAL\<close> when a
  token is live for the cancel id of the call; neither is the access-denied status
  \<open>EACCES\<close>.
\<close>

theorem open_session_unknown_login_counterexample:
  "\<not> known_login (arg_clnt_login (open_arg_example 3 0))
   \<and> fst (mipstee_open_session env_no_buffer (env_good 0) mipstee_ctx_init
            (open_arg_example 3 0) []) = - 12
   \<and> \<not> known_login (arg_clnt_login (open_arg_example 3 5))
   \<and> fst (mipstee_open_session (env_good 0) (env_good 0) ctx_open_in_flight
            (open_arg_example 3 5) []) = - 22
   \<and> EACCES = 13"
  by code_simp

text \<open>
  C10. A cancel-request call whose session id is zero or known, whose cancel id has a
  live token and whose message buffer is acquired returns 0 whatever status the one-way
  write returns: the call allocates the buffer, writes one cancel message and frees the
  buffer, and the status of the write only appears in the log.
\<close>

theorem cancel_req_write_status_dropped:
  assumes "sid = 0 \<or> find_session ctx sid \<noteq> None"
    and "idr_wf (cancel_idr ctx)" and "cancel_live ctx cid"
    and "buffer_acquired e"
  shows "fst (mipstee_cancel_req e ctx cid sid) = 0
     \<and> (\<exists>m. cmd m = MIPSTEE_MSG_CMD_CANCEL \<and> session m = sid
            \<and> new_events ctx (snd (mipstee_cancel_req e ctx cid sid)) =
                [ShmAlloc (shm_next ctx), TipcWrite m (tipc_write_res e m),
                 ShmFree (shm_next ctx)])"
proof -
  have f: "mipstee_find_cancel_idr ctx cid \<noteq> 0"
    using find_cancel_live(1) [OF assms(2,3)] .
  have s: "\<not> (sid \<noteq> 0 \<and> find_session ctx sid = None)"
    using assms(1) by auto
  define m where "m = (zero_msg_arg 0)\<lparr>cmd := MIPSTEE_MSG_CMD_CANCEL, session := sid,
      cancel_id := word_of_int (mipstee_find_cancel_idr ctx cid)\<rparr>"
  have cm: "cmd m = MIPSTEE_MSG_CMD_CANCEL" "session m = sid"
    by (simp_all add: m_def)
  have "mipstee_cancel_req e ctx cid sid =
      (0, ctx\<lparr>shm_next := Suc (shm_next ctx),
              klog := klog ctx @ [ShmAlloc (shm_next ctx), TipcWrite m (tipc_write_res e m),
                                  ShmFree (shm_next ctx)]\<rparr>)"
    using f s cm assms(4)
    by (auto simp: mipstee_cancel_req_def Let_def get_msg_arg_acquired m_def [symmetric]
          do_call_write tee_shm_free_def)
  then show ?thesis
    using cm by (auto simp: new_events_def)
qed

text \<open>With a token for cancel id 7 and a write that is refused, the status is 0.\<close>

theorem cancel_req_write_status_dropped_witness:
  "idr_wf (cancel_idr (ctx_token 1 7)) \<and> cancel_live (ctx_token 1 7) 7
   \<and> buffer_acquired env_write_fails
   \<and> tipc_write_res env_write_fails (zero_msg_arg 0) < 0
   \<and> fst (mipstee_cancel_req env_write_fails (ctx_token 1 7) 7 0) = 0"
proof -
  have w: "idr_wf (cancel_idr (ctx_token 1 7))"
    by (simp add: idr_wf_def ctx_token_def mipstee_ctx_init_def)
  have l: "cancel_live (ctx_token 1 7) 7"
    by (simp add: cancel_live_def ctx_token_def mipstee_ctx_init_def)
  have b: "buffer_acquired env_write_fails"
    by (simp add: buffer_acquired_def env_write_fails_def env_good_def)
  show ?thesis
    using w l b cancel_req_write_status_dropped [OF _ w l b, of 0]
    by (simp add: env_write_fails_def write_fails_def)
qed

end
